theory Spec2Isabelle
  imports Complex_Main "HOL-Library.Finite_Map"
begin

section \<open>Python values and errors\<close>

text \<open>
  Python floats are modelled as exact real numbers and Python ints as \<open>int\<close>.
  Every exception the modelled code can raise is a value of \<open>error\<close>; a fallible
  function returns \<open>error + 'a\<close> with \<open>Inl\<close> for the raised exception.
\<close>

datatype error =
    ValueError
  | OverflowError
  | ZeroDivisionError
  | JSONDecodeError
  | TypeError
  | AttributeError
  | KeyError
  | IndexError

definition bind_err :: "error + 'a \<Rightarrow> ('a \<Rightarrow> error + 'b) \<Rightarrow> error + 'b" where
  "bind_err r f = (case r of Inl e \<Rightarrow> Inl e | Inr x \<Rightarrow> f x)"

text \<open>Python's \<open>round\<close> on an exact value: to the nearest integer, ties to even.\<close>

definition py_round :: "real \<Rightarrow> int" where
  "py_round x =
     (let f = \<lfloor>x\<rfloor>; d = x - of_int f
      in if d < 1 / 2 then f
         else if 1 / 2 < d then f + 1
         else if even f then f else f + 1)"

text \<open>\<open>round(x, 2)\<close>.\<close>

definition round2 :: "real \<Rightarrow> real" where
  "round2 x = of_int (py_round (x * 100)) / 100"

text \<open>\<open>int(x)\<close> on a float truncates towards zero; \<open>x % y\<close> takes the sign of \<open>y\<close>.\<close>

definition py_int :: "real \<Rightarrow> int" where
  "py_int x = (if 0 \<le> x then \<lfloor>x\<rfloor> else \<lceil>x\<rceil>)"

definition py_fmod :: "real \<Rightarrow> real \<Rightarrow> real" where
  "py_fmod x y = x - y * of_int \<lfloor>x / y\<rfloor>"

section \<open>datetime\<close>

text \<open>
  A naive \<open>datetime\<close> is a point on the proleptic Gregorian time line with microsecond
  resolution. It is represented by the number of microseconds since midnight of the day
  with ordinal 0, so that \<open>toordinal\<close> is the quotient by the length of a day and the
  fields hour, minute, second and microsecond are read off the remainder.
  \<open>date.min\<close> has ordinal 1 and \<open>date.max\<close> (9999-12-31) has ordinal 3652059;
  arithmetic that leaves this range raises \<open>OverflowError\<close>.
\<close>

type_synonym datetime = int

definition US_PER_MINUTE :: int where "US_PER_MINUTE = 60000000"
definition US_PER_HOUR :: int where "US_PER_HOUR = 3600000000"
definition US_PER_DAY :: int where "US_PER_DAY = 86400000000"

definition DT_MIN :: datetime where "DT_MIN = 1 * 86400000000"
definition DT_MAX :: datetime where "DT_MAX = 3652059 * 86400000000 + 86399999999"

definition mk_datetime :: "int \<Rightarrow> int \<Rightarrow> int \<Rightarrow> int \<Rightarrow> int \<Rightarrow> datetime" where
  "mk_datetime ordinal h m s us =
     ordinal * US_PER_DAY + h * US_PER_HOUR + m * US_PER_MINUTE + s * 1000000 + us"

definition toordinal :: "datetime \<Rightarrow> int" where
  "toordinal t = t div US_PER_DAY"

text \<open>\<open>weekday()\<close>: Monday is 0, Sunday is 6; ordinal 1 is a Monday.\<close>

definition weekday :: "datetime \<Rightarrow> int" where
  "weekday t = (toordinal t + 6) mod 7"

text \<open>\<open>t + timedelta(microseconds=us)\<close>.\<close>

definition add_us :: "datetime \<Rightarrow> int \<Rightarrow> error + datetime" where
  "add_us t us = (let r = t + us in if DT_MIN \<le> r \<and> r \<le> DT_MAX then Inr r else Inl OverflowError)"

text \<open>
  \<open>t + timedelta(days=n)\<close> and \<open>t + timedelta(minutes=m)\<close>; the latter rounds the
  float number of minutes to whole microseconds (ties to even). A timedelta outside its
  own range also raises \<open>OverflowError\<close>, and then the sum is outside the datetime range
  as well, so one range check gives the right exception in both cases.
\<close>

definition add_days :: "datetime \<Rightarrow> int \<Rightarrow> error + datetime" where
  "add_days t n = add_us t (n * US_PER_DAY)"

definition timedelta_minutes :: "real \<Rightarrow> int" where
  "timedelta_minutes m = py_round (m * 60000000)"

definition add_minutes :: "datetime \<Rightarrow> real \<Rightarrow> error + datetime" where
  "add_minutes t m = add_us t (timedelta_minutes m)"

text \<open>
  \<open>t.replace(hour=h, minute=m)\<close>: the date, the second and the microsecond are kept;
  a field out of range raises \<open>ValueError\<close>.
\<close>

definition replace_hour_minute :: "datetime \<Rightarrow> int \<Rightarrow> int \<Rightarrow> error + datetime" where
  "replace_hour_minute t h m =
     (if 0 \<le> h \<and> h \<le> 23 \<and> 0 \<le> m \<and> m \<le> 59
      then Inr (toordinal t * US_PER_DAY + h * US_PER_HOUR + m * US_PER_MINUTE + t mod US_PER_MINUTE)
      else Inl ValueError)"

text \<open>\<open>(a - b).total_seconds() / 60\<close>.\<close>

definition minutes_between :: "datetime \<Rightarrow> datetime \<Rightarrow> real" where
  "minutes_between a b = of_int (a - b) / 60000000"

section \<open>PlannerConfig and DateCalculator (core/calculators.py)\<close>

record PlannerConfig =
  turnos_dia_semana :: int
  horas_por_turno_semana :: int
  turnos_sabado :: int
  dias_laborales :: "int list option"
  horas_por_turno_sabado :: int
  hora_inicio_turno1 :: int
  eficiencia_maquina :: real
  buffer_seguridad_pct :: real
  costo_cambio_tinta_min :: real
  factor_cambio_material_completo :: real
  factor_cambio_material_parcial :: real
  bonificacion_mismo_cliente_pct :: real

text \<open>The field defaults of the class.\<close>

definition PlannerConfig_defaults :: PlannerConfig where
  "PlannerConfig_defaults =
     \<lparr> turnos_dia_semana = 1, horas_por_turno_semana = 10, turnos_sabado = 2,
       dias_laborales = None, horas_por_turno_sabado = 8, hora_inicio_turno1 = 7,
       eficiencia_maquina = 85 / 100, buffer_seguridad_pct = 1 / 100,
       costo_cambio_tinta_min = 5, factor_cambio_material_completo = 1,
       factor_cambio_material_parcial = 1 / 2, bonificacion_mismo_cliente_pct = 7 / 10 \<rparr>"

text \<open>The model validator \<open>set_default_dias_laborales\<close>, run after construction.\<close>

definition set_default_dias_laborales :: "PlannerConfig \<Rightarrow> PlannerConfig" where
  "set_default_dias_laborales c =
     (if dias_laborales c = None then c\<lparr>dias_laborales := Some [0, 1, 2, 3, 4, 5]\<rparr> else c)"

text \<open>
  \<open>DateCalculator.__init__\<close>: the dictionary \<open>minutos_laborables_por_dia\<close>, with one
  key for each of the days 0 to 6. \<open>dia in self.config.dias_laborales\<close> on \<open>None\<close>
  cannot occur after the validator; it is read as the empty list.
\<close>

definition minutos_laborables_por_dia :: "PlannerConfig \<Rightarrow> (int \<rightharpoonup> int)" where
  "minutos_laborables_por_dia c =
     (let minutos_semana = horas_por_turno_semana c * 60 * turnos_dia_semana c;
          minutos_sabado = horas_por_turno_sabado c * 60 * turnos_sabado c;
          dias = (case dias_laborales c of None \<Rightarrow> [] | Some ds \<Rightarrow> ds)
      in (\<lambda>dia. if 0 \<le> dia \<and> dia < 7
                 then Some (if dia \<in> set dias
                            then (if dia = 5 then minutos_sabado else minutos_semana)
                            else 0)
                 else None))"

text \<open>\<open>self.minutos_laborables_por_dia.get(d, 0)\<close>.\<close>

definition get_minutos :: "PlannerConfig \<Rightarrow> int \<Rightarrow> int" where
  "get_minutos c d = (case minutos_laborables_por_dia c d of None \<Rightarrow> 0 | Some v \<Rightarrow> v)"

text \<open>The test of the 24/7 special case.\<close>

definition es_24_7 :: "PlannerConfig \<Rightarrow> bool" where
  "es_24_7 c = list_all (\<lambda>d. get_minutos c d = 1440) [0, 1, 2, 3, 4, 5, 6]"

text \<open>
  \<open>(fecha_actual + timedelta(days=1)).replace(hour=self.config.hora_inicio_turno1, minute=0)\<close>
\<close>

definition inicio_dia_siguiente :: "PlannerConfig \<Rightarrow> datetime \<Rightarrow> error + datetime" where
  "inicio_dia_siguiente c fecha_actual =
     bind_err (add_days fecha_actual 1) (\<lambda>t. replace_hour_minute t (hora_inicio_turno1 c) 0)"

text \<open>\<open>fin_jornada_hoy\<close> of one iteration of the loop.\<close>

definition fin_jornada :: "PlannerConfig \<Rightarrow> datetime \<Rightarrow> int \<Rightarrow> error + datetime" where
  "fin_jornada c fecha_actual minutos_laborables_hoy =
     (let hora_fin = of_int (hora_inicio_turno1 c) + of_int minutos_laborables_hoy / 60
      in replace_hour_minute fecha_actual (py_int hora_fin) (py_int (py_fmod (hora_fin * 60) 60)))"

lemma div_mult_lower:
  fixes t :: int
  assumes "0 < d"
  shows "t div d * d \<le> t"
proof -
  have "0 \<le> t mod d" using assms by simp
  moreover have "t div d * d + t mod d = t" by simp
  ultimately show ?thesis by linarith
qed

lemma div_mult_upper:
  fixes t :: int
  assumes "0 < d"
  shows "t < (t div d + 1) * d"
proof -
  have "t mod d < d" using assms by simp
  moreover have "t div d * d + t mod d = t" by simp
  moreover have "(t div d + 1) * d = t div d * d + d" by (simp add: algebra_simps)
  ultimately show ?thesis by linarith
qed

lemma inicio_dia_siguiente_later:
  assumes "inicio_dia_siguiente c t = Inr t'"
  shows "t < t'" and "t' \<le> DT_MAX"
proof -
  from assms obtain u where u: "add_days t 1 = Inr u"
    and r: "replace_hour_minute u (hora_inicio_turno1 c) 0 = Inr t'"
    by (auto simp: inicio_dia_siguiente_def bind_err_def split: sum.splits)
  from u have u_eq: "u = t + 86400000000" and u_max: "u \<le> DT_MAX"
    by (auto simp: add_days_def add_us_def Let_def US_PER_DAY_def split: if_splits)
  from r have h: "0 \<le> hora_inicio_turno1 c" "hora_inicio_turno1 c \<le> 23"
    and t'_eq: "t' = (u div 86400000000) * 86400000000 + hora_inicio_turno1 c * 3600000000 + u mod 60000000"
    by (auto simp: replace_hour_minute_def toordinal_def US_PER_DAY_def US_PER_HOUR_def
        US_PER_MINUTE_def split: if_splits)
  have d1: "u div 86400000000 = t div 86400000000 + 1"
    unfolding u_eq by simp
  have up: "t < (t div 86400000000 + 1) * 86400000000"
    by (rule div_mult_upper) simp
  have m0: "0 \<le> u mod 60000000" and m1: "u mod 60000000 < 60000000" by simp_all
  show "t < t'" using h up m0 unfolding t'_eq d1 by linarith
  have "u div 86400000000 \<le> DT_MAX div 86400000000"
    using u_max by (rule zdiv_mono1) simp
  then have "u div 86400000000 \<le> 3652059" by (simp add: DT_MAX_def)
  then have "u div 86400000000 * 86400000000 \<le> 3652059 * 86400000000" by simp
  then show "t' \<le> DT_MAX" using h m1 unfolding t'_eq DT_MAX_def by linarith
qed

text \<open>
  The main loop of \<open>_ajustar_horario_laboral\<close>. Every iteration that does not finish
  moves to a later day, and leaving the datetime range raises \<open>OverflowError\<close>, so the
  loop always ends.
\<close>

function ajustar_loop :: "PlannerConfig \<Rightarrow> datetime \<Rightarrow> real \<Rightarrow> error + datetime" where
  "ajustar_loop c fecha_actual minutos_restantes =
     (if 0 < minutos_restantes then
        (if get_minutos c (weekday fecha_actual) = 0 then
           (case inicio_dia_siguiente c fecha_actual of
              Inl e \<Rightarrow> Inl e
            | Inr siguiente \<Rightarrow> ajustar_loop c siguiente minutos_restantes)
         else
           (case fin_jornada c fecha_actual (get_minutos c (weekday fecha_actual)) of
              Inl e \<Rightarrow> Inl e
            | Inr fin_jornada_hoy \<Rightarrow>
                (if minutos_restantes \<le> max 0 (minutes_between fin_jornada_hoy fecha_actual)
                 then add_minutes fecha_actual minutos_restantes
                 else
                   (case inicio_dia_siguiente c fecha_actual of
                      Inl e \<Rightarrow> Inl e
                    | Inr siguiente \<Rightarrow>
                        ajustar_loop c siguiente
                          (minutos_restantes - max 0 (minutes_between fin_jornada_hoy fecha_actual))))))
      else Inr fecha_actual)"
  by pat_completeness auto
termination
proof (relation "measure (\<lambda>(c, t, m). nat (DT_MAX - t))")
  show "wf (measure (\<lambda>(c, t, m). nat (DT_MAX - t)))" by simp
next
  fix c :: PlannerConfig and fecha_actual :: datetime and minutos_restantes :: real and x2
  assume "inicio_dia_siguiente c fecha_actual = Inr x2"
  then have "fecha_actual < x2" "x2 \<le> DT_MAX" by (rule inicio_dia_siguiente_later)+
  then show "((c, x2, minutos_restantes), (c, fecha_actual, minutos_restantes))
      \<in> measure (\<lambda>(c, t, m). nat (DT_MAX - t))" by simp
next
  fix c :: PlannerConfig and fecha_actual :: datetime and minutos_restantes :: real and x2 x2a
  assume "inicio_dia_siguiente c fecha_actual = Inr x2a"
  then have "fecha_actual < x2a" "x2a \<le> DT_MAX" by (rule inicio_dia_siguiente_later)+
  then show "((c, x2a, minutos_restantes - max 0 (minutes_between x2 fecha_actual)),
        (c, fecha_actual, minutos_restantes)) \<in> measure (\<lambda>(c, t, m). nat (DT_MAX - t))" by simp
qed

declare ajustar_loop.simps [simp del]

text \<open>\<open>DateCalculator._ajustar_horario_laboral\<close>.\<close>

definition ajustar_horario_laboral :: "PlannerConfig \<Rightarrow> datetime \<Rightarrow> real \<Rightarrow> error + datetime" where
  "ajustar_horario_laboral c fecha_inicio minutos_a_sumar =
     (if es_24_7 c then add_minutes fecha_inicio minutos_a_sumar
      else ajustar_loop c fecha_inicio minutos_a_sumar)"

section \<open>Decoded JSON\<close>

text \<open>
  The values \<open>json.loads\<close> returns. JSON \<open>true\<close> and \<open>false\<close> decode to Python
  booleans, which equal 1 and 0, hash like them and have the same truth value, so for
  everything the modelled code does with a decoded value (\<open>set\<close>, \<open>==\<close>, \<open>len\<close>, truth
  tests) they are the numbers 1 and 0. A decoded object is a dictionary: a finite map,
  compared regardless of key order. The \<open>NaN\<close> literal is not modelled.
\<close>

datatype pyval =
    PNone
  | PNum real
  | PStr string
  | PList "pyval list"
  | PDict "(string, pyval) fmap"

text \<open>
  \<open>json.loads\<close> itself belongs to the standard library: the decoder is a parameter
  \<open>L\<close> of every function that parses, with \<open>None\<close> for a text that is not JSON.
\<close>

type_synonym decoder = "string \<Rightarrow> pyval option"

definition json_loads :: "decoder \<Rightarrow> string \<Rightarrow> error + pyval" where
  "json_loads L s = (case L s of None \<Rightarrow> Inl JSONDecodeError | Some v \<Rightarrow> Inr v)"

fun hashable :: "pyval \<Rightarrow> bool" where
  "hashable (PList _) = False"
| "hashable (PDict _) = False"
| "hashable _ = True"

text \<open>
  \<open>set(v)\<close>: the elements of a list (all of which must be hashable), the keys of a
  dictionary, the characters of a string; a number or \<open>None\<close> is not iterable.
\<close>

fun py_set :: "pyval \<Rightarrow> error + pyval set" where
  "py_set (PList xs) = (if list_all hashable xs then Inr (set xs) else Inl TypeError)"
| "py_set (PDict m) = Inr (PStr ` fmdom' m)"
| "py_set (PStr s) = Inr (set (map (\<lambda>ch. PStr [ch]) s))"
| "py_set (PNum _) = Inl TypeError"
| "py_set PNone = Inl TypeError"

text \<open>\<open>v.get(k)\<close>: only a dictionary has the method.\<close>

fun dict_get :: "pyval \<Rightarrow> string \<Rightarrow> error + pyval" where
  "dict_get (PDict m) k = Inr (case fmlookup m k of None \<Rightarrow> PNone | Some v \<Rightarrow> v)"
| "dict_get _ k = Inl AttributeError"

text \<open>The truth value of a decoded value.\<close>

fun truthy :: "pyval \<Rightarrow> bool" where
  "truthy PNone = False"
| "truthy (PNum x) = (x \<noteq> 0)"
| "truthy (PStr s) = (s \<noteq> [])"
| "truthy (PList xs) = (xs \<noteq> [])"
| "truthy (PDict m) = (m \<noteq> fmempty)"

text \<open>\<open>x or d\<close> on numbers.\<close>

definition or_real :: "real \<Rightarrow> real \<Rightarrow> real" where
  "or_real x d = (if x = 0 then d else x)"

definition or_int :: "int \<Rightarrow> int \<Rightarrow> int" where
  "or_int x d = (if x = 0 then d else x)"

text \<open>Float division.\<close>

definition py_div :: "real \<Rightarrow> real \<Rightarrow> error + real" where
  "py_div a b = (if b = 0 then Inl ZeroDivisionError else Inr (a / b))"

text \<open>\<open>xs[i]\<close> with Python's negative indices.\<close>

definition py_index :: "'a list \<Rightarrow> int \<Rightarrow> error + 'a" where
  "py_index xs i =
     (if 0 \<le> i \<and> i < int (length xs) then Inr (xs ! nat i)
      else if i < 0 \<and> - int (length xs) \<le> i then Inr (xs ! nat (int (length xs) + i))
      else Inl IndexError)"

section \<open>The models of schemas/db_models.py\<close>

record MachineModel =
  id_machine :: int
  name :: string
  max_width :: int
  inks :: int
  plant :: int
  pseudonym :: "string option"
  share_rolls :: "string option"
  time_change_units :: real
  avg_velocity :: real
  estatus :: string
  functional_inks :: int

record SchedulableOrderModel =
  id_en_cola :: "int option"
  id_order :: int
  producto_id :: int
  status :: int
  datos :: string
  fecha_entrega :: "datetime option"
  fecha_forzosa_entrega :: "datetime option"
  prioridad_planeacion :: int
  dias_restantes :: "int option"
  producto_nombre :: string
  cantidad :: string
  colores :: "string option"
  num_colores :: int
  materiales :: string
  total_peso_neto :: real
  total_metros_impresion :: real
  num_etiquetas :: int

section \<open>The date calculator's change time and dates\<close>

text \<open>
  The handler \<open>except (json.JSONDecodeError, TypeError)\<close> of both parsers: these two
  exceptions are replaced by a fallback value, any other one propagates.
\<close>

definition except_json_type :: "error + 'a \<Rightarrow> 'a \<Rightarrow> error + 'a" where
  "except_json_type r fallback =
     (case r of
        Inl e \<Rightarrow> (if e = JSONDecodeError \<or> e = TypeError then Inr fallback else Inl e)
      | Inr v \<Rightarrow> Inr v)"

text \<open>\<open>set(json.loads(s)) if s else set()\<close>, as the date calculator reads the materials.\<close>

definition materiales_set :: "decoder \<Rightarrow> string \<Rightarrow> error + pyval set" where
  "materiales_set L s = (if s \<noteq> [] then bind_err (json_loads L s) py_set else Inr {})"

text \<open>\<open>DateCalculator._calcular_tiempo_cambio\<close>.\<close>

definition calcular_tiempo_cambio ::
  "decoder \<Rightarrow> PlannerConfig \<Rightarrow> SchedulableOrderModel \<Rightarrow> SchedulableOrderModel \<Rightarrow> MachineModel
     \<Rightarrow> error + real" where
  "calcular_tiempo_cambio L c orden_anterior orden_actual machine =
     (let tiempo_base = or_real (time_change_units machine) 15
      in except_json_type
           (bind_err (materiales_set L (materiales orden_anterior)) (\<lambda>materiales_ant.
            bind_err (materiales_set L (materiales orden_actual)) (\<lambda>materiales_act.
            let costo = (if materiales_ant \<noteq> materiales_act
                         then tiempo_base * factor_cambio_material_completo c
                         else tiempo_base * factor_cambio_material_parcial c);
                costo = costo
                  + of_int \<bar>or_int (num_colores orden_anterior) 0 - or_int (num_colores orden_actual) 0\<bar>
                    * costo_cambio_tinta_min c
            in bind_err (json_loads L (datos orden_anterior)) (\<lambda>datos_ant.
               bind_err (json_loads L (datos orden_actual)) (\<lambda>datos_act.
               bind_err (dict_get datos_ant ''id_cliente'') (\<lambda>cliente_ant.
               bind_err (dict_get datos_act ''id_cliente'') (\<lambda>cliente_act.
               Inr (if cliente_ant = cliente_act
                    then costo * bonificacion_mismo_cliente_pct c
                    else costo))))))))
           tiempo_base)"

text \<open>One entry of the list \<open>calcular_fechas_probables\<close> returns: the dumped order and the added keys.\<close>

record OrdenConFechas =
  orden :: SchedulableOrderModel
  probable_fecha_entrega :: datetime
  tiempo_setup_min :: real
  tiempo_cambios_internos_min :: real
  tiempo_impresion_min :: real
  tiempo_buffer_min :: real
  tiempo_total_min :: real
  debug_num_etiquetas :: int

text \<open>
  \<open>tiempo_impresion_teorico\<close> and \<open>tiempo_impresion_real\<close> of one order
  (steps 1.3 of the loop body).
\<close>

definition tiempo_impresion_teorico :: "MachineModel \<Rightarrow> SchedulableOrderModel \<Rightarrow> real" where
  "tiempo_impresion_teorico machine ord =
     (let velocidad_m_hora = or_real (avg_velocity machine) 150;
          velocidad_m_min = velocidad_m_hora / 60;
          metros_totales = or_real (total_metros_impresion ord) 0
      in if 0 < velocidad_m_min then metros_totales / velocidad_m_min else 0)"

definition tiempo_impresion_real ::
  "PlannerConfig \<Rightarrow> MachineModel \<Rightarrow> SchedulableOrderModel \<Rightarrow> error + real" where
  "tiempo_impresion_real c machine ord =
     py_div (tiempo_impresion_teorico machine ord) (eficiencia_maquina c)"

text \<open>
  The loop of \<open>calcular_fechas_probables\<close>: \<open>i\<close> is the index of \<open>enumerate\<close>, the last
  argument the orders from position \<open>i\<close> on. The assignment of step 1.4 is overwritten
  by step 1.5 before it is read.
\<close>

fun fechas_loop ::
  "decoder \<Rightarrow> PlannerConfig \<Rightarrow> MachineModel \<Rightarrow> SchedulableOrderModel list \<Rightarrow> nat \<Rightarrow> datetime
     \<Rightarrow> SchedulableOrderModel list \<Rightarrow> error + OrdenConFechas list" where
  "fechas_loop L c machine ordenes_secuenciadas i fecha_acumulada [] = Inr []"
| "fechas_loop L c machine ordenes_secuenciadas i fecha_acumulada (ord # resto) =
     bind_err (if 0 < i
               then calcular_tiempo_cambio L c (ordenes_secuenciadas ! (i - 1)) ord machine
               else Inr 0) (\<lambda>tiempo_setup.
     let num_etiquetas = or_int (num_etiquetas ord) 1;
         tiempo_cambios_internos = of_int (num_etiquetas - 1) * or_real (time_change_units machine) 15
     in bind_err (tiempo_impresion_real c machine ord) (\<lambda>tiempo_impresion_real.
     let duracion_orden_minutos = 0 + tiempo_impresion_real;
         duracion_total_orden = tiempo_setup + tiempo_cambios_internos + tiempo_impresion_real;
         tiempo_buffer = duracion_orden_minutos * buffer_seguridad_pct c;
         duracion_total_orden = duracion_orden_minutos + tiempo_buffer
     in bind_err (ajustar_horario_laboral c fecha_acumulada duracion_total_orden) (\<lambda>fecha_fin_orden.
        bind_err (fechas_loop L c machine ordenes_secuenciadas (i + 1) fecha_fin_orden resto) (\<lambda>siguientes.
        Inr (\<lparr> orden = ord,
               probable_fecha_entrega = fecha_fin_orden,
               tiempo_setup_min = round2 tiempo_setup,
               tiempo_cambios_internos_min = round2 tiempo_cambios_internos,
               tiempo_impresion_min = round2 tiempo_impresion_real,
               tiempo_buffer_min = round2 tiempo_buffer,
               tiempo_total_min = round2 duracion_total_orden,
               debug_num_etiquetas = num_etiquetas \<rparr> # siguientes)))))"

definition calcular_fechas_probables ::
  "decoder \<Rightarrow> PlannerConfig \<Rightarrow> SchedulableOrderModel list \<Rightarrow> datetime \<Rightarrow> MachineModel
     \<Rightarrow> error + OrdenConFechas list" where
  "calcular_fechas_probables L c ordenes_secuenciadas fecha_inicio machine =
     fechas_loop L c machine ordenes_secuenciadas 0 fecha_inicio ordenes_secuenciadas"

section \<open>The genetic sequencer (core/optimizer.py)\<close>

text \<open>The constants of \<open>OptimizerConfig\<close>.\<close>

definition SETUP_COST_WEIGHT :: real where "SETUP_COST_WEIGHT = 100"
definition DELAY_PENALTY_WEIGHT :: real where "DELAY_PENALTY_WEIGHT = 10"
definition INK_OVERCAPACITY_PENALTY :: real where "INK_OVERCAPACITY_PENALTY = 1000"
definition MATERIAL_CHANGE_FACTOR :: real where "MATERIAL_CHANGE_FACTOR = 2"
definition MATERIAL_SAME_FACTOR :: real where "MATERIAL_SAME_FACTOR = 1 / 2"
definition INK_CLEAN_COST :: real where "INK_CLEAN_COST = 5"
definition INK_ADD_COST :: real where "INK_ADD_COST = 25"
definition SAME_CLIENT_BONUS_FACTOR :: real where "SAME_CLIENT_BONUS_FACTOR = 8 / 10"
definition HIGH_INK_PRIORITY_WEIGHT :: real where "HIGH_INK_PRIORITY_WEIGHT = 50000"
definition COLOR_REUSE_BONUS :: real where "COLOR_REUSE_BONUS = 15"

record EnrichedOrder =
  eo_original :: SchedulableOrderModel
  eo_id :: int
  eo_colores :: "pyval set"
  eo_materiales :: "pyval set"
  eo_id_cliente :: pyval

text \<open>
  \<open>set(json.loads(s)) if s and s != 'null' else set()\<close>, on an optional string
  (\<open>None\<close> and the empty string are false).
\<close>

definition token_set :: "decoder \<Rightarrow> string option \<Rightarrow> error + pyval set" where
  "token_set L field =
     (case field of
        None \<Rightarrow> Inr {}
      | Some s \<Rightarrow> if s \<noteq> [] \<and> s \<noteq> ''null'' then bind_err (json_loads L s) py_set else Inr {})"

text \<open>
  \<open>EnrichedOrder.__init__\<close>. One \<open>try\<close> block parses the three fields in turn; its
  handler sets all three attributes to their empty values.
\<close>

definition EnrichedOrder_init :: "decoder \<Rightarrow> SchedulableOrderModel \<Rightarrow> error + EnrichedOrder" where
  "EnrichedOrder_init L order =
     bind_err
       (except_json_type
          (bind_err (token_set L (colores order)) (\<lambda>cs.
           bind_err (token_set L (Some (materiales order))) (\<lambda>ms.
           bind_err (if datos order \<noteq> [] then json_loads L (datos order) else Inr (PDict fmempty))
             (\<lambda>datos_dict.
           bind_err (dict_get datos_dict ''id_cliente'') (\<lambda>cliente.
           Inr (cs, ms, cliente))))))
          ({}, {}, PNone))
       (\<lambda>(cs, ms, cliente).
          Inr \<lparr> eo_original = order, eo_id = id_order order,
                eo_colores = cs, eo_materiales = ms, eo_id_cliente = cliente \<rparr>)"

definition clasificar_urgencia :: "SchedulableOrderModel \<Rightarrow> string" where
  "clasificar_urgencia order =
     (let dias = (case dias_restantes order of None \<Rightarrow> 999 | Some d \<Rightarrow> d)
      in if dias < -30 then ''CRITICA_ATRASADA''
         else if dias < 0 then ''ATRASADA''
         else if dias \<le> 3 then ''URGENTE''
         else if dias \<le> 7 then ''PROXIMA''
         else ''NORMAL'')"

text \<open>
  The state of \<open>AlgoritmoGeneticoFlexo\<close> the fitness reads. A dictionary comprehension
  keeps the last value of a repeated key.
\<close>

record AlgoritmoGeneticoFlexo =
  ordenes_dict :: "int \<rightharpoonup> EnrichedOrder"
  idx_to_order_id :: "int list"
  maquina :: MachineModel

fun enrich_all :: "decoder \<Rightarrow> SchedulableOrderModel list \<Rightarrow> error + EnrichedOrder list" where
  "enrich_all L [] = Inr []"
| "enrich_all L (x # xs) =
     bind_err (EnrichedOrder_init L x) (\<lambda>e.
     bind_err (enrich_all L xs) (\<lambda>es. Inr (e # es)))"

definition AlgoritmoGeneticoFlexo_init ::
  "decoder \<Rightarrow> SchedulableOrderModel list \<Rightarrow> MachineModel \<Rightarrow> error + AlgoritmoGeneticoFlexo" where
  "AlgoritmoGeneticoFlexo_init L ordenes maquina_info =
     bind_err (enrich_all L ordenes) (\<lambda>es.
     Inr \<lparr> ordenes_dict = fold (\<lambda>e m. m(eo_id e \<mapsto> e)) es Map.empty,
           idx_to_order_id = map id_order ordenes,
           maquina = maquina_info \<rparr>)"

text \<open>\<open>_calcular_costo_cambio\<close>; nothing in its \<open>try\<close> block can raise.\<close>

definition calcular_costo_cambio :: "MachineModel \<Rightarrow> EnrichedOrder \<Rightarrow> EnrichedOrder \<Rightarrow> real" where
  "calcular_costo_cambio maq orden_anterior orden_actual =
     (let tiempo_base = or_real (time_change_units maq) 15;
          costo_total = (if eo_materiales orden_anterior \<noteq> eo_materiales orden_actual
                         then tiempo_base * MATERIAL_CHANGE_FACTOR
                         else tiempo_base * MATERIAL_SAME_FACTOR);
          tintas_a_quitar = eo_colores orden_anterior - eo_colores orden_actual;
          tintas_a_anadir = eo_colores orden_actual - eo_colores orden_anterior;
          tintas_reutilizadas = eo_colores orden_anterior \<inter> eo_colores orden_actual;
          costo_total = costo_total + of_nat (card tintas_a_anadir) * INK_ADD_COST;
          costo_total = costo_total + of_nat (card tintas_a_quitar) * INK_CLEAN_COST;
          costo_total = costo_total - of_nat (card tintas_reutilizadas) * COLOR_REUSE_BONUS;
          costo_total = (if truthy (eo_id_cliente orden_anterior)
                            \<and> eo_id_cliente orden_anterior = eo_id_cliente orden_actual
                         then costo_total * SAME_CLIENT_BONUS_FACTOR
                         else costo_total)
      in max 0 costo_total)"

text \<open>\<open>_estimar_tiempo_produccion\<close>.\<close>

definition estimar_tiempo_produccion :: "MachineModel \<Rightarrow> SchedulableOrderModel \<Rightarrow> real" where
  "estimar_tiempo_produccion maq order =
     (if total_metros_impresion order = 0 \<or> avg_velocity maq = 0 \<or> avg_velocity maq = 0
      then 0
      else total_metros_impresion order / (avg_velocity maq / 60))"

text \<open>The order an index of an individual stands for: two lookups.\<close>

definition orden_de_indice :: "AlgoritmoGeneticoFlexo \<Rightarrow> int \<Rightarrow> error + EnrichedOrder" where
  "orden_de_indice ag idx =
     bind_err (py_index (idx_to_order_id ag) idx) (\<lambda>order_id.
     case ordenes_dict ag order_id of None \<Rightarrow> Inl KeyError | Some e \<Rightarrow> Inr e)"

text \<open>The three score terms of one position that do not depend on the previous order.\<close>

definition termino_posicion :: "nat \<Rightarrow> real \<Rightarrow> real" where
  "termino_posicion num_colores_orden posicion_normalizada =
     (if 5 \<le> num_colores_orden
      then - ((1 - posicion_normalizada)\<^sup>2 * of_nat num_colores_orden * HIGH_INK_PRIORITY_WEIGHT)
      else if 3 \<le> num_colores_orden
      then - ((1 - posicion_normalizada) * of_nat num_colores_orden * (HIGH_INK_PRIORITY_WEIGHT * (2 / 10)))
      else (1 - posicion_normalizada) * (3 - of_nat num_colores_orden) * (HIGH_INK_PRIORITY_WEIGHT * (1 / 2)))"

definition termino_sobrecapacidad :: "MachineModel \<Rightarrow> nat \<Rightarrow> real" where
  "termino_sobrecapacidad maq num_colores_orden =
     (let fi = or_int (functional_inks maq) (inks maq)
      in if fi < int num_colores_orden
         then of_int (int num_colores_orden - fi) * INK_OVERCAPACITY_PENALTY
         else 0)"

text \<open>
  The lateness block: what it adds to the score, given the accumulated minutes after the
  order's own print time has been added.
\<close>

definition penalizacion_retraso :: "real \<Rightarrow> SchedulableOrderModel \<Rightarrow> real" where
  "penalizacion_retraso tiempo_acumulado_minutos order =
     (case dias_restantes order of
        None \<Rightarrow> 0
      | Some dias_entrega \<Rightarrow>
          (let plazo_minutos = of_int (dias_entrega * 1440)
           in if plazo_minutos < tiempo_acumulado_minutos
              then (let retraso_minutos = tiempo_acumulado_minutos - plazo_minutos;
                        urgencia = clasificar_urgencia order;
                        peso_penalizacion =
                          (if urgencia \<in> set [''CRITICA_ATRASADA'', ''ATRASADA''] then 50
                           else if urgencia = ''URGENTE'' then 20
                           else DELAY_PENALTY_WEIGHT)
                    in min (retraso_minutos * peso_penalizacion) 500000)
              else 0))"

text \<open>
  One iteration of the loop of \<open>_evaluate_fitness\<close>, at position \<open>i\<close> with index
  \<open>current_idx\<close>: the new score and the new accumulated minutes.
\<close>

definition fitness_step ::
  "AlgoritmoGeneticoFlexo \<Rightarrow> int list \<Rightarrow> nat \<Rightarrow> int \<Rightarrow> real \<times> real \<Rightarrow> error + real \<times> real" where
  "fitness_step ag individual_indices i current_idx st =
     (case st of (score, tiempo_acumulado_minutos) \<Rightarrow>
      bind_err (orden_de_indice ag current_idx) (\<lambda>current_order.
      let num_colores_orden = card (eo_colores current_order);
          posicion_normalizada = of_nat i / of_nat (length individual_indices);
          score = score + termino_posicion num_colores_orden posicion_normalizada
      in bind_err
           (if 0 < i
            then bind_err (orden_de_indice ag (individual_indices ! (i - 1))) (\<lambda>previous_order.
                 let costo_cambio = calcular_costo_cambio (maquina ag) previous_order current_order
                 in Inr (score + costo_cambio * SETUP_COST_WEIGHT,
                         tiempo_acumulado_minutos + costo_cambio))
            else Inr (score, tiempo_acumulado_minutos))
           (\<lambda>(score, tiempo_acumulado_minutos).
      let tiempo_prod = estimar_tiempo_produccion (maquina ag) (eo_original current_order);
          tiempo_acumulado_minutos = tiempo_acumulado_minutos + tiempo_prod;
          score = score + termino_sobrecapacidad (maquina ag) num_colores_orden;
          score = score + penalizacion_retraso tiempo_acumulado_minutos (eo_original current_order)
      in Inr (score, tiempo_acumulado_minutos))))"

fun fitness_loop ::
  "AlgoritmoGeneticoFlexo \<Rightarrow> int list \<Rightarrow> nat \<Rightarrow> real \<times> real \<Rightarrow> int list \<Rightarrow> error + real \<times> real" where
  "fitness_loop ag individual_indices i st [] = Inr st"
| "fitness_loop ag individual_indices i st (current_idx # resto) =
     bind_err (fitness_step ag individual_indices i current_idx st) (\<lambda>st'.
     fitness_loop ag individual_indices (i + 1) st' resto)"

definition evaluate_fitness :: "AlgoritmoGeneticoFlexo \<Rightarrow> int list \<Rightarrow> error + real" where
  "evaluate_fitness ag individual_indices =
     bind_err (fitness_loop ag individual_indices 0 (0, 0) individual_indices) (\<lambda>(score, t). Inr score)"



section \<open>Building the sequence (services/scheduling_service.py)\<close>








section \<open>Sample inputs\<close>

definition config_por_defecto :: PlannerConfig where
  "config_por_defecto = set_default_dias_laborales PlannerConfig_defaults"

definition config_dos_turnos_12h :: PlannerConfig where
  "config_dos_turnos_12h =
     set_default_dias_laborales
       (PlannerConfig_defaults\<lparr>turnos_dia_semana := 2, horas_por_turno_semana := 12\<rparr>)"

lemmas datetime_defs = mk_datetime_def US_PER_DAY_def US_PER_HOUR_def US_PER_MINUTE_def
  toordinal_def weekday_def add_us_def add_days_def add_minutes_def timedelta_minutes_def
  replace_hour_minute_def minutes_between_def DT_MIN_def DT_MAX_def
  py_round_def py_int_def py_fmod_def bind_err_def

lemmas calendar_defs = minutos_laborables_por_dia_def get_minutos_def es_24_7_def
  inicio_dia_siguiente_def fin_jornada_def ajustar_horario_laboral_def
  set_default_dias_laborales_def PlannerConfig_defaults_def

text \<open>The planner configuration both schedule generators of the service build.\<close>

definition config_servicio :: PlannerConfig where
  "config_servicio =
     set_default_dias_laborales
       (PlannerConfig_defaults\<lparr> turnos_dia_semana := 2, horas_por_turno_semana := 12,
          dias_laborales := Some [0, 1, 2, 3, 4, 5, 6], hora_inicio_turno1 := 8,
          turnos_sabado := 2, horas_por_turno_sabado := 12, eficiencia_maquina := 95 / 100 \<rparr>)"

text \<open>
  A decoder for the witnesses: it agrees with \<open>json.loads\<close> on the texts it lists
  (every other text is taken as malformed, as \<open>x\<close> is).
\<close>

definition decoder_muestra :: decoder where
  "decoder_muestra =
     map_of [(''[1]'', PList [PNum 1]), (''[2]'', PList [PNum 2]),
             (''[1, 2]'', PList [PNum 1, PNum 2]), (''{}'', PDict fmempty),
             (''5'', PNum 5)]"

definition maquina_muestra :: MachineModel where
  "maquina_muestra =
     \<lparr> id_machine = 1, name = ''M1'', max_width = 500, inks = 6, plant = 1,
       pseudonym = None, share_rolls = None, time_change_units = 15, avg_velocity = 150,
       estatus = ''activa'', functional_inks = 6 \<rparr>"

definition orden_muestra :: SchedulableOrderModel where
  "orden_muestra =
     \<lparr> id_en_cola = None, id_order = 1, producto_id = 1, status = 1, datos = ''{}'',
       fecha_entrega = None, fecha_forzosa_entrega = None, prioridad_planeacion = 0,
       dias_restantes = None, producto_nombre = ''P'', cantidad = ''1'', colores = None,
       num_colores = 0, materiales = ''[1]'', total_peso_neto = 0,
       total_metros_impresion = 0, num_etiquetas = 1 \<rparr>"

lemmas value_defs = json_loads_def or_real_def or_int_def py_div_def py_index_def
  except_json_type_def materiales_set_def token_set_def decoder_muestra_def

definition maquina_parada :: MachineModel where
  "maquina_parada = maquina_muestra\<lparr>avg_velocity := 0\<rparr>"

definition orden_con_metros :: SchedulableOrderModel where
  "orden_con_metros = orden_muestra\<lparr>total_metros_impresion := 425 / 2\<rparr>"

definition orden_materiales_rotos :: SchedulableOrderModel where
  "orden_materiales_rotos = orden_muestra\<lparr>colores := Some ''[1, 2]'', materiales := ''x''\<rparr>"

definition orden_colores_numero :: SchedulableOrderModel where
  "orden_colores_numero = orden_muestra\<lparr>colores := Some ''5''\<rparr>"

definition orden_siguiente :: SchedulableOrderModel where
  "orden_siguiente =
     orden_muestra\<lparr>id_order := 2, materiales := ''[2]'', total_metros_impresion := 475 / 2,
       num_etiquetas := 3\<rparr>"

definition enriquecida_muestra :: EnrichedOrder where
  "enriquecida_muestra =
     \<lparr> eo_original = orden_muestra, eo_id = 1, eo_colores = {}, eo_materiales = {PNum 1},
       eo_id_cliente = PNone \<rparr>"

definition enriquecida_siguiente :: EnrichedOrder where
  "enriquecida_siguiente =
     \<lparr> eo_original = orden_siguiente, eo_id = 2, eo_colores = {}, eo_materiales = {PNum 2},
       eo_id_cliente = PNone \<rparr>"

definition orden_atrasada :: SchedulableOrderModel where
  "orden_atrasada = orden_muestra\<lparr>dias_restantes := Some (- 1), total_metros_impresion := 2500\<rparr>"

definition enriquecida_atrasada :: EnrichedOrder where
  "enriquecida_atrasada =
     \<lparr> eo_original = orden_atrasada, eo_id = 1, eo_colores = {}, eo_materiales = {PNum 1},
       eo_id_cliente = PNone \<rparr>"

definition ag_muestra :: AlgoritmoGeneticoFlexo where
  "ag_muestra =
     \<lparr> ordenes_dict = [1 \<mapsto> enriquecida_atrasada, 2 \<mapsto> enriquecida_siguiente],
       idx_to_order_id = [1, 2], maquina = maquina_muestra \<rparr>"

definition filas_muestra :: "OrdenConFechas list" where
  "filas_muestra =
     [\<lparr> orden = orden_muestra, probable_fecha_entrega = mk_datetime 738886 8 0 0 0,
        tiempo_setup_min = 0, tiempo_cambios_internos_min = 0, tiempo_impresion_min = 0,
        tiempo_buffer_min = 0, tiempo_total_min = 0, debug_num_etiquetas = 1 \<rparr>,
      \<lparr> orden = orden_siguiente, probable_fecha_entrega = mk_datetime 738886 9 41 0 0,
        tiempo_setup_min = 21 / 2, tiempo_cambios_internos_min = 30,
        tiempo_impresion_min = 100, tiempo_buffer_min = 1, tiempo_total_min = 101,
        debug_num_etiquetas = 3 \<rparr>]"





lemmas sample_defs = maquina_muestra_def orden_muestra_def maquina_parada_def orden_con_metros_def
  orden_materiales_rotos_def orden_colores_numero_def orden_siguiente_def

lemmas optimizer_defs = SETUP_COST_WEIGHT_def DELAY_PENALTY_WEIGHT_def INK_OVERCAPACITY_PENALTY_def
  MATERIAL_CHANGE_FACTOR_def MATERIAL_SAME_FACTOR_def INK_CLEAN_COST_def INK_ADD_COST_def
  SAME_CLIENT_BONUS_FACTOR_def HIGH_INK_PRIORITY_WEIGHT_def COLOR_REUSE_BONUS_def

section \<open>Properties of the working calendar\<close>

lemma py_round_bounds: "x - 1 / 2 \<le> of_int (py_round x)" "of_int (py_round x) \<le> x + 1 / 2"
proof -
  have a: "of_int \<lfloor>x\<rfloor> \<le> x" and b: "x < of_int \<lfloor>x\<rfloor> + 1" by linarith+
  show "x - 1 / 2 \<le> of_int (py_round x)"
    unfolding py_round_def Let_def using a b by (auto; linarith)
  show "of_int (py_round x) \<le> x + 1 / 2"
    unfolding py_round_def Let_def using a b by (auto; linarith)
qed

lemma py_round_zero: "py_round 0 = 0"
  by (simp add: py_round_def)

lemma py_round_shift:
  "py_round x - n - 1 \<le> py_round (x - of_int n)"
proof -
  have "x - of_int n - 1 / 2 \<le> of_int (py_round (x - of_int n))" by (rule py_round_bounds)
  moreover have "of_int (py_round x) \<le> x + 1 / 2" by (rule py_round_bounds)
  ultimately have "(of_int (py_round x - n - 1) :: real) \<le> of_int (py_round (x - of_int n))"
    by simp
  then show ?thesis by (simp only: of_int_le_iff)
qed

lemma replace_hour_minute_same_day:
  assumes "replace_hour_minute t h m = Inr f"
  shows "toordinal t * US_PER_DAY \<le> f" and "f < (toordinal t + 1) * US_PER_DAY"
proof -
  from assms have h: "0 \<le> h" "h \<le> 23" "0 \<le> m" "m \<le> 59"
    and f: "f = toordinal t * US_PER_DAY + h * 3600000000 + m * 60000000 + t mod 60000000"
    by (auto simp: replace_hour_minute_def US_PER_HOUR_def US_PER_MINUTE_def split: if_splits)
  have m0: "0 \<le> t mod 60000000" and m1: "t mod 60000000 < 60000000" by simp_all
  have e: "(toordinal t + 1) * US_PER_DAY = toordinal t * US_PER_DAY + 86400000000"
    by (simp add: US_PER_DAY_def algebra_simps)
  show "toordinal t * US_PER_DAY \<le> f" using h m0 unfolding f by linarith
  show "f < (toordinal t + 1) * US_PER_DAY" using h m1 unfolding f e by linarith
qed

lemma inicio_dia_siguiente_next_day:
  assumes "inicio_dia_siguiente c t = Inr t'"
  shows "(toordinal t + 1) * US_PER_DAY \<le> t'"
proof -
  from assms obtain u where u: "add_days t 1 = Inr u"
    and r: "replace_hour_minute u (hora_inicio_turno1 c) 0 = Inr t'"
    by (auto simp: inicio_dia_siguiente_def bind_err_def split: sum.splits)
  from u have "u = t + US_PER_DAY"
    by (auto simp: add_days_def add_us_def Let_def split: if_splits)
  then have "toordinal u = toordinal t + 1"
    by (simp add: toordinal_def US_PER_DAY_def)
  with replace_hour_minute_same_day(1)[OF r] show ?thesis by simp
qed

lemma fin_jornada_before_next:
  assumes "fin_jornada c t k = Inr f" and "inicio_dia_siguiente c t = Inr t'"
  shows "f < t'"
proof -
  from assms(1) have "f < (toordinal t + 1) * US_PER_DAY"
    by (auto simp: fin_jornada_def Let_def intro: replace_hour_minute_same_day(2))
  with inicio_dia_siguiente_next_day[OF assms(2)] show ?thesis by linarith
qed

lemma ajustar_loop_nonpos: "m \<le> 0 \<Longrightarrow> ajustar_loop c t m = Inr t"
  by (simp add: ajustar_loop.simps)

lemma ajustar_loop_lower:
  "ajustar_loop c t m = Inr r \<Longrightarrow> 0 < m \<Longrightarrow> t + timedelta_minutes m \<le> r"
  unfolding timedelta_minutes_def
proof (induction c t m arbitrary: r rule: ajustar_loop.induct)
  case (1 c t m)
  show ?case
  proof (cases "get_minutos c (weekday t) = 0")
    case True
    with "1.prems" obtain t' where t': "inicio_dia_siguiente c t = Inr t'"
      and rec: "ajustar_loop c t' m = Inr r"
      by (auto simp: ajustar_loop.simps[of c t m] split: sum.splits)
    from "1.IH"(1)[OF "1.prems"(2) True t' rec "1.prems"(2)]
    have "t' + py_round (m * 60000000) \<le> r" .
    moreover have "t < t'" using t' by (rule inicio_dia_siguiente_later)
    ultimately show ?thesis by linarith
  next
    case False
    with "1.prems" obtain f where f: "fin_jornada c t (get_minutos c (weekday t)) = Inr f"
      by (auto simp: ajustar_loop.simps[of c t m] split: sum.splits)
    from "1.prems" False f
    have body: "(if m \<le> max 0 (minutes_between f t) then add_minutes t m
                 else (case inicio_dia_siguiente c t of Inl e \<Rightarrow> Inl e
                       | Inr siguiente \<Rightarrow>
                           ajustar_loop c siguiente (m - max 0 (minutes_between f t)))) = Inr r"
      by (simp only: ajustar_loop.simps[of c t m] if_True if_False sum.case)
    show ?thesis
    proof (cases "m \<le> max 0 (minutes_between f t)")
      case True
      with body have "add_minutes t m = Inr r"
        by (simp only: if_True)
      then show ?thesis
        by (auto simp: add_minutes_def timedelta_minutes_def add_us_def Let_def split: if_splits)
    next
      case nofit: False
      with body have "(case inicio_dia_siguiente c t of Inl e \<Rightarrow> Inl e
                       | Inr siguiente \<Rightarrow>
                           ajustar_loop c siguiente (m - max 0 (minutes_between f t))) = Inr r"
        by (simp only: if_False)
      then obtain t' where t': "inicio_dia_siguiente c t = Inr t'"
        and rec: "ajustar_loop c t' (m - max 0 (minutes_between f t)) = Inr r"
        by (cases "inicio_dia_siguiente c t") simp_all
      define a :: int where "a = max 0 (f - t)"
      have a_real: "max 0 (minutes_between f t) * 60000000 = of_int a"
        by (simp add: a_def minutes_between_def max_def)
      have pos: "0 < m - max 0 (minutes_between f t)" using nofit by (simp add: max_def split: if_splits)
      from "1.IH"(2)[OF "1.prems"(2) False f nofit t' rec pos]
      have "t' + py_round ((m - max 0 (minutes_between f t)) * 60000000) \<le> r" .
      moreover have "(m - max 0 (minutes_between f t)) * 60000000 = m * 60000000 - of_int a"
        using a_real by (simp add: algebra_simps)
      ultimately have 1: "t' + py_round (m * 60000000 - of_int a) \<le> r" by simp
      have 2: "py_round (m * 60000000) - a - 1 \<le> py_round (m * 60000000 - of_int a)"
        by (rule py_round_shift)
      have "t < t'" using t' by (rule inicio_dia_siguiente_later)
      moreover have "f < t'" using f t' by (rule fin_jornada_before_next)
      ultimately have 3: "t + a + 1 \<le> t'" by (simp add: a_def max_def)
      from 1 2 3 show ?thesis by linarith
    qed
  qed
qed


text \<open>
  Claim C7. For every starting timestamp \<open>t\<close> (a datetime, so within the datetime range),
  advancing by a duration of 0 minutes returns exactly \<open>t\<close>; and for every duration
  \<open>d \<ge> 0\<close>, whenever the advance returns a timestamp \<open>r\<close>, it is not earlier than
  \<open>t + timedelta(minutes=d)\<close>: the elapsed wall-clock time is at least the working
  duration consumed.
\<close>

theorem advance_zero_and_lower_bound:
  assumes "DT_MIN \<le> t" and "t \<le> DT_MAX"
  shows "ajustar_horario_laboral c t 0 = Inr t \<and>
         (\<forall>d r. 0 \<le> d \<longrightarrow> ajustar_horario_laboral c t d = Inr r \<longrightarrow> t + timedelta_minutes d \<le> r)"
proof (intro conjI allI impI)
  show "ajustar_horario_laboral c t 0 = Inr t"
    using assms
    by (simp add: ajustar_horario_laboral_def ajustar_loop_nonpos add_minutes_def
        timedelta_minutes_def py_round_zero add_us_def)
next
  fix d r
  assume d: "0 \<le> d" and res: "ajustar_horario_laboral c t d = Inr r"
  show "t + timedelta_minutes d \<le> r"
  proof (cases "es_24_7 c")
    case True
    with res have "add_minutes t d = Inr r" by (simp add: ajustar_horario_laboral_def)
    then show ?thesis by (auto simp: add_minutes_def add_us_def Let_def split: if_splits)
  next
    case False
    with res have loop: "ajustar_loop c t d = Inr r" by (simp add: ajustar_horario_laboral_def)
    show ?thesis
    proof (cases "d = 0")
      case True
      with loop show ?thesis
        by (simp add: ajustar_loop_nonpos timedelta_minutes_def py_round_zero)
    next
      case False
      with d have "0 < d" by simp
      with loop show ?thesis by (rule ajustar_loop_lower)
    qed
  qed
qed

theorem advance_zero_and_lower_bound_witness:
  "DT_MIN \<le> mk_datetime 738886 16 0 0 0 \<and> mk_datetime 738886 16 0 0 0 \<le> DT_MAX \<and>
   ajustar_horario_laboral config_por_defecto (mk_datetime 738886 16 0 0 0) 0
     = Inr (mk_datetime 738886 16 0 0 0) \<and>
   (0::real) \<le> 120 \<and>
   ajustar_horario_laboral config_por_defecto (mk_datetime 738886 16 0 0 0) 120
     = Inr (mk_datetime 738887 8 0 0 0) \<and>
   mk_datetime 738886 16 0 0 0 + timedelta_minutes 120 \<le> mk_datetime 738887 8 0 0 0"
proof -
  have r: "DT_MIN \<le> mk_datetime 738886 16 0 0 0" "mk_datetime 738886 16 0 0 0 \<le> DT_MAX"
    by (simp_all add: datetime_defs)
  have e: "ajustar_horario_laboral config_por_defecto (mk_datetime 738886 16 0 0 0) 120
     = Inr (mk_datetime 738887 8 0 0 0)"
    by (simp add: config_por_defecto_def calendar_defs datetime_defs ajustar_loop.simps Let_def)
  from advance_zero_and_lower_bound[OF r, of config_por_defecto] e r
  show ?thesis by simp
qed

text \<open>
  Claim C3. The claim asks that a start before the day's working window is first moved to
  the day start, so that duration is consumed inside the window only. The loop has no such
  step: with the default configuration (Monday to Saturday, one weekday shift of 10 hours
  from 07:00, so a Monday window of 600 minutes from 07:00 to 17:00), starting on Monday
  2024-01-01 (ordinal 738886) at 03:00 with 60 minutes, the advance returns 04:00 of the
  same day: the whole hour is consumed before the window opens.
\<close>

theorem advance_before_window_consumes_early:
  "\<not> es_24_7 config_por_defecto \<and>
   weekday (mk_datetime 738886 3 0 0 0) = 0 \<and>
   get_minutos config_por_defecto 0 = 600 \<and>
   hora_inicio_turno1 config_por_defecto = 7 \<and>
   ajustar_horario_laboral config_por_defecto (mk_datetime 738886 3 0 0 0) 60
     = Inr (mk_datetime 738886 4 0 0 0)"
  by (simp add: config_por_defecto_def calendar_defs datetime_defs ajustar_loop.simps Let_def)

text \<open>
  Claim C10. The advance operation is not total. Whenever the calendar is not 24/7, the
  duration is positive and the start day is a working day whose shifts total more than
  (24 - day start hour) hours, the end-of-day computation asks \<open>replace\<close> for an hour
  beyond 23 and the advance fails with \<open>ValueError\<close> instead of returning a timestamp.
  The witness is the configuration with two weekday shifts of 12 hours from 07:00 and
  Sunday off, started on a Monday at 08:00.
\<close>

theorem advance_hour_out_of_range:
  assumes "\<not> es_24_7 c" and "0 < d"
    and "get_minutos c (weekday t) \<noteq> 0"
    and "(24 - hora_inicio_turno1 c) * 60 < get_minutos c (weekday t)"
  shows "ajustar_horario_laboral c t d = Inl ValueError"
proof -
  define hora_fin :: real where
    "hora_fin = of_int (hora_inicio_turno1 c) + of_int (get_minutos c (weekday t)) / 60"
  have "24 < hora_fin"
  proof -
    have "of_int ((24 - hora_inicio_turno1 c) * 60) < (of_int (get_minutos c (weekday t)) :: real)"
      using assms(4) by (simp only: of_int_less_iff)
    then show ?thesis by (simp add: hora_fin_def field_simps)
  qed
  then have "24 \<le> py_int hora_fin"
    by (simp add: py_int_def le_floor_iff)
  then have "fin_jornada c t (get_minutos c (weekday t)) = Inl ValueError"
    by (simp add: fin_jornada_def Let_def hora_fin_def [symmetric] replace_hour_minute_def)
  with assms(1-3) show ?thesis
    by (simp add: ajustar_horario_laboral_def ajustar_loop.simps[of c t d])
qed

theorem advance_hour_out_of_range_witness:
  "\<not> es_24_7 config_dos_turnos_12h \<and> (0::real) < 60 \<and>
   get_minutos config_dos_turnos_12h (weekday (mk_datetime 738886 8 0 0 0)) \<noteq> 0 \<and>
   (24 - hora_inicio_turno1 config_dos_turnos_12h) * 60
      < get_minutos config_dos_turnos_12h (weekday (mk_datetime 738886 8 0 0 0)) \<and>
   get_minutos config_dos_turnos_12h 6 = 0 \<and>
   ajustar_horario_laboral config_dos_turnos_12h (mk_datetime 738886 8 0 0 0) 60 = Inl ValueError"
proof -
  have h: "\<not> es_24_7 config_dos_turnos_12h" "(0::real) < 60"
    "get_minutos config_dos_turnos_12h (weekday (mk_datetime 738886 8 0 0 0)) \<noteq> 0"
    "(24 - hora_inicio_turno1 config_dos_turnos_12h) * 60
      < get_minutos config_dos_turnos_12h (weekday (mk_datetime 738886 8 0 0 0))"
    "get_minutos config_dos_turnos_12h 6 = 0"
    by (simp_all add: config_dos_turnos_12h_def calendar_defs datetime_defs)
  from advance_hour_out_of_range[OF h(1-4)] h show ?thesis by simp
qed

section \<open>Print time\<close>

text \<open>
  Claim C4, as stated, at a machine whose average velocity is 0: the date calculator does
  not return 0. \<open>machine.avg_velocity or 150.0\<close> replaces the velocity 0 by 150 m/h,
  so 212.5 m take 85 theoretical minutes and, at the default efficiency 0.85, 100 real
  minutes.
\<close>

theorem print_time_zero_velocity_counterexample:
  "avg_velocity maquina_parada = 0 \<and>
   tiempo_impresion_teorico maquina_parada orden_con_metros = 85 \<and>
   tiempo_impresion_real config_por_defecto maquina_parada orden_con_metros = Inr 100"
  by (simp add: tiempo_impresion_real_def tiempo_impresion_teorico_def sample_defs
      config_por_defecto_def calendar_defs value_defs Let_def)

text \<open>
  Claim C4, amended. The genetic sequencer's raw estimate is 0 whenever the velocity is 0
  or the total meters are 0. The date calculator's theoretical print time is 0 whenever
  the total meters are 0, and then so is the real print time (the efficiency being
  non-zero, as the division needs). When the velocity is 0 the date calculator falls back
  to 150 m/h: the theoretical time is the meters divided by 2.5 m/min.
\<close>

theorem print_time_zero:
  "(avg_velocity m = 0 \<or> total_metros_impresion ord = 0 \<longrightarrow> estimar_tiempo_produccion m ord = 0) \<and>
   (total_metros_impresion ord = 0 \<longrightarrow>
      tiempo_impresion_teorico m ord = 0 \<and>
      (eficiencia_maquina c \<noteq> 0 \<longrightarrow> tiempo_impresion_real c m ord = Inr 0)) \<and>
   (avg_velocity m = 0 \<longrightarrow>
      tiempo_impresion_teorico m ord = total_metros_impresion ord / (150 / 60))"
  by (simp add: estimar_tiempo_produccion_def tiempo_impresion_teorico_def
      tiempo_impresion_real_def py_div_def or_real_def Let_def)

theorem print_time_zero_witness:
  "avg_velocity maquina_parada = 0 \<and> total_metros_impresion orden_muestra = 0 \<and>
   eficiencia_maquina config_por_defecto \<noteq> 0 \<and>
   estimar_tiempo_produccion maquina_parada orden_muestra = 0 \<and>
   tiempo_impresion_teorico maquina_parada orden_muestra = 0 \<and>
   tiempo_impresion_real config_por_defecto maquina_parada orden_muestra = Inr 0"
proof -
  have h: "avg_velocity maquina_parada = 0" "total_metros_impresion orden_muestra = 0"
    "eficiencia_maquina config_por_defecto \<noteq> 0"
    by (simp_all add: sample_defs config_por_defecto_def calendar_defs)
  from print_time_zero[of maquina_parada orden_muestra config_por_defecto] h
  show ?thesis by simp
qed

section \<open>Enriched orders\<close>

lemma py_set_error: "py_set v = Inl e \<Longrightarrow> e = TypeError"
  by (cases v) (auto split: if_splits)

lemma token_set_error: "token_set L field = Inl e \<Longrightarrow> e = JSONDecodeError \<or> e = TypeError"
  by (auto simp: token_set_def json_loads_def bind_err_def
      split: option.splits if_splits dest: py_set_error)

text \<open>
  Claim C9, as stated, at an order whose colours are the well-formed text \<open>[1, 2]\<close> and
  whose materials are the malformed text \<open>x\<close>: the colours parse to a two-element set,
  the materials fail to decode, and the enriched order has lost the colours as well.
\<close>

theorem enriched_order_keeps_parsed_counterexample:
  "token_set decoder_muestra (colores orden_materiales_rotos) = Inr {PNum 1, PNum 2} \<and>
   token_set decoder_muestra (Some (materiales orden_materiales_rotos)) = Inl JSONDecodeError \<and>
   EnrichedOrder_init decoder_muestra orden_materiales_rotos
     = Inr \<lparr> eo_original = orden_materiales_rotos, eo_id = 1, eo_colores = {},
             eo_materiales = {}, eo_id_cliente = PNone \<rparr>"
  by (simp add: EnrichedOrder_init_def value_defs bind_err_def sample_defs)

text \<open>
  Claim C9, amended. A failure while parsing any of the three fields, be it a text that
  is not JSON (in colours, materials or \<open>datos\<close>) or a decoded value that \<open>set\<close>
  rejects with a \<open>TypeError\<close> (in colours or materials: a number, \<open>null\<close>, a list
  holding a list or an object), makes all three attributes empty (no colours, no
  materials, no customer id), also those of the fields that parsed; no error is raised.
  Only when the colour and material fields both yield a set (the field is empty,
  \<open>null\<close> or absent, or its text decodes to a value \<open>set\<close> accepts) and \<open>datos\<close>
  is empty or decodes to an object does each attribute hold its parsed value.
\<close>

theorem enriched_order_parse_failure:
  "(token_set L (colores ord) = Inl JSONDecodeError
      \<or> token_set L (colores ord) = Inl TypeError
      \<or> token_set L (Some (materiales ord)) = Inl JSONDecodeError
      \<or> token_set L (Some (materiales ord)) = Inl TypeError
      \<or> (datos ord \<noteq> [] \<and> L (datos ord) = None)
    \<longrightarrow> EnrichedOrder_init L ord
          = Inr \<lparr> eo_original = ord, eo_id = id_order ord, eo_colores = {},
                  eo_materiales = {}, eo_id_cliente = PNone \<rparr>) \<and>
   (token_set L (colores ord) = Inr cs
      \<and> token_set L (Some (materiales ord)) = Inr ms
      \<and> (if datos ord \<noteq> [] then json_loads L (datos ord) else Inr (PDict fmempty)) = Inr (PDict d)
    \<longrightarrow> EnrichedOrder_init L ord
          = Inr \<lparr> eo_original = ord, eo_id = id_order ord, eo_colores = cs, eo_materiales = ms,
                  eo_id_cliente = (case fmlookup d ''id_cliente'' of None \<Rightarrow> PNone | Some v \<Rightarrow> v) \<rparr>)"
proof (intro conjI impI)
  assume fail: "token_set L (colores ord) = Inl JSONDecodeError
      \<or> token_set L (colores ord) = Inl TypeError
      \<or> token_set L (Some (materiales ord)) = Inl JSONDecodeError
      \<or> token_set L (Some (materiales ord)) = Inl TypeError
      \<or> (datos ord \<noteq> [] \<and> L (datos ord) = None)"
  let ?fallback = "Inr \<lparr> eo_original = ord, eo_id = id_order ord, eo_colores = {},
                  eo_materiales = {}, eo_id_cliente = PNone \<rparr>"
  show "EnrichedOrder_init L ord = ?fallback"
  proof (cases "token_set L (colores ord)")
    case (Inl e)
    then have "e = JSONDecodeError \<or> e = TypeError" by (rule token_set_error)
    with Inl show ?thesis
      by (auto simp: EnrichedOrder_init_def bind_err_def except_json_type_def)
  next
    case c: (Inr cs')
    show ?thesis
    proof (cases "token_set L (Some (materiales ord))")
      case (Inl e)
      then have "e = JSONDecodeError \<or> e = TypeError" by (rule token_set_error)
      with Inl c show ?thesis
        by (auto simp: EnrichedOrder_init_def bind_err_def except_json_type_def)
    next
      case (Inr ms')
      with c fail have "datos ord \<noteq> []" "L (datos ord) = None" by simp_all
      with c Inr show ?thesis
        by (simp add: EnrichedOrder_init_def bind_err_def except_json_type_def json_loads_def)
    qed
  qed
next
  assume "token_set L (colores ord) = Inr cs
      \<and> token_set L (Some (materiales ord)) = Inr ms
      \<and> (if datos ord \<noteq> [] then json_loads L (datos ord) else Inr (PDict fmempty)) = Inr (PDict d)"
  then show "EnrichedOrder_init L ord
          = Inr \<lparr> eo_original = ord, eo_id = id_order ord, eo_colores = cs, eo_materiales = ms,
                  eo_id_cliente = (case fmlookup d ''id_cliente'' of None \<Rightarrow> PNone | Some v \<Rightarrow> v) \<rparr>"
    by (simp add: EnrichedOrder_init_def bind_err_def except_json_type_def)
qed

theorem enriched_order_parse_failure_witness:
  "token_set decoder_muestra (Some (materiales orden_materiales_rotos)) = Inl JSONDecodeError \<and>
   EnrichedOrder_init decoder_muestra orden_materiales_rotos
     = Inr \<lparr> eo_original = orden_materiales_rotos, eo_id = id_order orden_materiales_rotos,
             eo_colores = {}, eo_materiales = {}, eo_id_cliente = PNone \<rparr> \<and>
   decoder_muestra ''5'' = Some (PNum 5) \<and>
   token_set decoder_muestra (colores orden_colores_numero) = Inl TypeError \<and>
   token_set decoder_muestra (Some (materiales orden_colores_numero)) = Inr {PNum 1} \<and>
   EnrichedOrder_init decoder_muestra orden_colores_numero
     = Inr \<lparr> eo_original = orden_colores_numero, eo_id = id_order orden_colores_numero,
             eo_colores = {}, eo_materiales = {}, eo_id_cliente = PNone \<rparr> \<and>
   token_set decoder_muestra (colores orden_muestra) = Inr {} \<and>
   token_set decoder_muestra (Some (materiales orden_muestra)) = Inr {PNum 1} \<and>
   (if datos orden_muestra \<noteq> [] then json_loads decoder_muestra (datos orden_muestra)
    else Inr (PDict fmempty)) = Inr (PDict fmempty) \<and>
   EnrichedOrder_init decoder_muestra orden_muestra
     = Inr \<lparr> eo_original = orden_muestra, eo_id = id_order orden_muestra,
             eo_colores = {}, eo_materiales = {PNum 1}, eo_id_cliente = PNone \<rparr>"
proof -
  have a: "token_set decoder_muestra (Some (materiales orden_materiales_rotos)) = Inl JSONDecodeError"
    by (simp add: value_defs bind_err_def sample_defs)
  have t: "decoder_muestra ''5'' = Some (PNum 5)"
    "token_set decoder_muestra (colores orden_colores_numero) = Inl TypeError"
    "token_set decoder_muestra (Some (materiales orden_colores_numero)) = Inr {PNum 1}"
    by (simp_all add: value_defs bind_err_def sample_defs)
  have b: "token_set decoder_muestra (colores orden_muestra) = Inr {}"
    "token_set decoder_muestra (Some (materiales orden_muestra)) = Inr {PNum 1}"
    "(if datos orden_muestra \<noteq> [] then json_loads decoder_muestra (datos orden_muestra)
      else Inr (PDict fmempty)) = Inr (PDict fmempty)"
    by (simp_all add: value_defs bind_err_def sample_defs)
  from enriched_order_parse_failure[of decoder_muestra orden_materiales_rotos "{}" "{}" fmempty] a
  have 1: "EnrichedOrder_init decoder_muestra orden_materiales_rotos
     = Inr \<lparr> eo_original = orden_materiales_rotos, eo_id = id_order orden_materiales_rotos,
             eo_colores = {}, eo_materiales = {}, eo_id_cliente = PNone \<rparr>" by simp
  from enriched_order_parse_failure[of decoder_muestra orden_colores_numero "{}" "{}" fmempty] t(2)
  have 2: "EnrichedOrder_init decoder_muestra orden_colores_numero
     = Inr \<lparr> eo_original = orden_colores_numero, eo_id = id_order orden_colores_numero,
             eo_colores = {}, eo_materiales = {}, eo_id_cliente = PNone \<rparr>" by simp
  from enriched_order_parse_failure[of decoder_muestra orden_muestra "{}" "{PNum 1}" fmempty] b
  have 3: "EnrichedOrder_init decoder_muestra orden_muestra
     = Inr \<lparr> eo_original = orden_muestra, eo_id = id_order orden_muestra,
             eo_colores = {}, eo_materiales = {PNum 1}, eo_id_cliente = PNone \<rparr>" by simp
  from a t b 1 2 3 show ?thesis by (intro conjI)
qed

section \<open>The decomposition emitted by the date calculator\<close>

lemma fechas_muestra_eval:
  "calcular_fechas_probables decoder_muestra config_servicio [orden_muestra, orden_siguiente]
     (mk_datetime 738886 8 0 0 0) maquina_muestra = Inr filas_muestra"
  by (simp add: calcular_fechas_probables_def calcular_tiempo_cambio_def filas_muestra_def
      tiempo_impresion_real_def tiempo_impresion_teorico_def round2_def
      config_servicio_def calendar_defs datetime_defs value_defs sample_defs Let_def)

text \<open>
  Claim C1. The claim asks for buffer = (setup + inter-label changeover + real print time)
  times the buffer fraction and total = setup + changeover + print + buffer. The loop body
  computes the subtotal of step 1.4 and then overwrites it in step 1.5 from
  \<open>duracion_orden_minutos\<close>, which holds the print time only. At the second of two orders
  (setup 10.5, three labels so 30 minutes of changeover, 100 minutes of print, buffer
  fraction 0.01) the emitted buffer is 1 and the emitted total 101, and the running
  timestamp advances by 101 minutes; the claim gives 1.405 and 141.905.
\<close>

theorem fechas_total_omits_setup_and_changeover:
  "calcular_fechas_probables decoder_muestra config_servicio [orden_muestra, orden_siguiente]
     (mk_datetime 738886 8 0 0 0) maquina_muestra = Inr filas_muestra \<and>
   buffer_seguridad_pct config_servicio = 1 / 100 \<and>
   tiempo_setup_min (filas_muestra ! 1) = 21 / 2 \<and>
   tiempo_cambios_internos_min (filas_muestra ! 1) = 30 \<and>
   tiempo_impresion_min (filas_muestra ! 1) = 100 \<and>
   tiempo_buffer_min (filas_muestra ! 1) = 1 \<and>
   tiempo_total_min (filas_muestra ! 1) = 101 \<and>
   probable_fecha_entrega (filas_muestra ! 1)
     = probable_fecha_entrega (filas_muestra ! 0) + timedelta_minutes 101 \<and>
   tiempo_buffer_min (filas_muestra ! 1)
     \<noteq> (tiempo_setup_min (filas_muestra ! 1) + tiempo_cambios_internos_min (filas_muestra ! 1)
         + tiempo_impresion_min (filas_muestra ! 1)) * buffer_seguridad_pct config_servicio \<and>
   tiempo_total_min (filas_muestra ! 1)
     \<noteq> tiempo_setup_min (filas_muestra ! 1) + tiempo_cambios_internos_min (filas_muestra ! 1)
         + tiempo_impresion_min (filas_muestra ! 1) + tiempo_buffer_min (filas_muestra ! 1)"
proof -
  have "buffer_seguridad_pct config_servicio = 1 / 100"
    by (simp add: config_servicio_def calendar_defs)
  then show ?thesis
    by (simp add: fechas_muestra_eval) (simp add: filas_muestra_def datetime_defs)
qed

section \<open>Transition costs\<close>

text \<open>
  Claim C2, as stated, at two orders that differ in their material: the date calculator's
  change time is (15 * 1.0) * 0.7 = 10.5 (the customer ids are both absent, hence equal),
  the genetic sequencer's transition cost is 15 * 2.0 = 30.
\<close>

theorem transition_costs_agree_counterexample:
  "calcular_tiempo_cambio decoder_muestra config_por_defecto orden_muestra orden_siguiente
     maquina_muestra = Inr (21 / 2) \<and>
   EnrichedOrder_init decoder_muestra orden_muestra = Inr enriquecida_muestra \<and>
   EnrichedOrder_init decoder_muestra orden_siguiente = Inr enriquecida_siguiente \<and>
   calcular_costo_cambio maquina_muestra enriquecida_muestra enriquecida_siguiente = 30"
  by (simp add: calcular_tiempo_cambio_def calcular_costo_cambio_def EnrichedOrder_init_def
      enriquecida_muestra_def enriquecida_siguiente_def optimizer_defs
      config_por_defecto_def calendar_defs value_defs bind_err_def sample_defs Let_def)

lemma fechas_loop_setup:
  "fechas_loop L c m xs i t rest = Inr rows \<Longrightarrow>
   length rows = length rest \<and>
   (\<forall>j < length rest. 0 < i + j \<longrightarrow>
      (\<exists>s. calcular_tiempo_cambio L c (xs ! (i + j - 1)) (rest ! j) m = Inr s \<and>
           tiempo_setup_min (rows ! j) = round2 s))"
proof (induction rest arbitrary: i t rows)
  case Nil
  then show ?case by simp
next
  case (Cons x rest)
  from Cons.prems obtain s t' tl where
    s: "(if 0 < i then calcular_tiempo_cambio L c (xs ! (i - 1)) x m else Inr 0) = Inr s"
    and tl: "fechas_loop L c m xs (i + 1) t' rest = Inr tl"
    and rows: "length rows = Suc (length tl)" "tiempo_setup_min (rows ! 0) = round2 s"
      "\<forall>j. rows ! Suc j = tl ! j"
    by (auto simp: bind_err_def Let_def split: sum.splits)
  from Cons.IH[OF tl] have len: "length tl = length rest"
    and ih: "\<forall>j < length rest. 0 < i + 1 + j \<longrightarrow>
      (\<exists>s. calcular_tiempo_cambio L c (xs ! (i + 1 + j - 1)) (rest ! j) m = Inr s \<and>
           tiempo_setup_min (tl ! j) = round2 s)" by simp_all
  show ?case
  proof (intro conjI allI impI)
    show "length rows = length (x # rest)" using rows len by simp
  next
    fix j assume j: "j < length (x # rest)" and pos: "0 < i + j"
    show "\<exists>s. calcular_tiempo_cambio L c (xs ! (i + j - 1)) ((x # rest) ! j) m = Inr s \<and>
           tiempo_setup_min (rows ! j) = round2 s"
    proof (cases j)
      case 0
      with pos s rows show ?thesis by (auto split: if_splits)
    next
      case (Suc k)
      with j have "k < length rest" by simp
      with ih have "\<exists>s. calcular_tiempo_cambio L c (xs ! (i + 1 + k - 1)) (rest ! k) m = Inr s \<and>
           tiempo_setup_min (tl ! k) = round2 s" by simp
      with Suc rows show ?thesis by simp
    qed
  qed
qed

lemma calcular_tiempo_cambio_formula:
  assumes "materiales_set L (materiales a) = Inr A"
    and "materiales_set L (materiales b) = Inr B"
    and "json_loads L (datos a) = Inr (PDict da)"
    and "json_loads L (datos b) = Inr (PDict db)"
  shows "calcular_tiempo_cambio L c a b m =
     Inr ((or_real (time_change_units m) 15
             * (if A \<noteq> B then factor_cambio_material_completo c
                else factor_cambio_material_parcial c)
           + of_int \<bar>num_colores a - num_colores b\<bar> * costo_cambio_tinta_min c)
          * (if (case fmlookup da ''id_cliente'' of None \<Rightarrow> PNone | Some v \<Rightarrow> v)
                = (case fmlookup db ''id_cliente'' of None \<Rightarrow> PNone | Some v \<Rightarrow> v)
             then bonificacion_mismo_cliente_pct c else 1))"
  using assms
  by (simp add: calcular_tiempo_cambio_def bind_err_def except_json_type_def or_int_def Let_def)

lemma calcular_costo_cambio_formula:
  "calcular_costo_cambio m a b =
     max 0 ((or_real (time_change_units m) 15
               * (if eo_materiales a \<noteq> eo_materiales b then 2 else 1 / 2)
             + of_nat (card (eo_colores b - eo_colores a)) * 25
             + of_nat (card (eo_colores a - eo_colores b)) * 5
             - of_nat (card (eo_colores a \<inter> eo_colores b)) * 15)
            * (if truthy (eo_id_cliente a) \<and> eo_id_cliente a = eo_id_cliente b then 8 / 10 else 1))"
proof -
  have 1: "\<And>P (x::real) k. (if P then x * k else x) = x * (if P then k else 1)" by simp
  have 2: "\<And>Q (y::real) u v. (if Q then y * u else y * v) = y * (if Q then u else v)" by simp
  show ?thesis
    unfolding calcular_costo_cambio_def optimizer_defs Let_def 1 2 ..
qed

text \<open>
  Claim C2, amended. The setup time the date calculator emits at a position \<open>i \<ge> 1\<close> is
  the (rounded) result of its own change-time function on the two adjacent orders. With
  well-formed fields that result is the base time times the configured complete or partial
  material factor, plus the absolute difference of the two \<open>num_colores\<close> times the
  ink-change cost, all multiplied by the same-customer factor whenever the two
  \<open>id_cliente\<close> entries are equal (also when both are absent), and not clamped. The
  genetic sequencer's transition cost is the one the claim describes: factor 2 or 0.5 on
  the base time, plus 25 per added colour, plus 5 per removed colour, minus 15 per reused
  colour, times 0.8 only when the predecessor's customer id is set and equal to the
  successor's, clamped at 0. The two functions do not agree on every input.
\<close>

theorem setup_time_is_change_time:
  "(calcular_fechas_probables L c xs t0 m = Inr rows \<and> 0 < i \<and> i < length xs \<longrightarrow>
      i < length rows \<and>
      (\<exists>s. calcular_tiempo_cambio L c (xs ! (i - 1)) (xs ! i) m = Inr s \<and>
           tiempo_setup_min (rows ! i) = round2 s)) \<and>
   (materiales_set L (materiales a) = Inr A \<and> materiales_set L (materiales b) = Inr B \<and>
    json_loads L (datos a) = Inr (PDict da) \<and> json_loads L (datos b) = Inr (PDict db) \<longrightarrow>
      calcular_tiempo_cambio L c a b m =
        Inr ((or_real (time_change_units m) 15
                * (if A \<noteq> B then factor_cambio_material_completo c
                   else factor_cambio_material_parcial c)
              + of_int \<bar>num_colores a - num_colores b\<bar> * costo_cambio_tinta_min c)
             * (if (case fmlookup da ''id_cliente'' of None \<Rightarrow> PNone | Some v \<Rightarrow> v)
                   = (case fmlookup db ''id_cliente'' of None \<Rightarrow> PNone | Some v \<Rightarrow> v)
                then bonificacion_mismo_cliente_pct c else 1))) \<and>
   calcular_costo_cambio m ea eb =
     max 0 ((or_real (time_change_units m) 15
               * (if eo_materiales ea \<noteq> eo_materiales eb then 2 else 1 / 2)
             + of_nat (card (eo_colores eb - eo_colores ea)) * 25
             + of_nat (card (eo_colores ea - eo_colores eb)) * 5
             - of_nat (card (eo_colores ea \<inter> eo_colores eb)) * 15)
            * (if truthy (eo_id_cliente ea) \<and> eo_id_cliente ea = eo_id_cliente eb
               then 8 / 10 else 1))"
proof (intro conjI impI)
  assume h: "calcular_fechas_probables L c xs t0 m = Inr rows \<and> 0 < i \<and> i < length xs"
  then have "fechas_loop L c m xs 0 t0 xs = Inr rows"
    by (simp add: calcular_fechas_probables_def)
  from fechas_loop_setup[OF this] h
  show "i < length rows"
    and "\<exists>s. calcular_tiempo_cambio L c (xs ! (i - 1)) (xs ! i) m = Inr s \<and>
           tiempo_setup_min (rows ! i) = round2 s"
    by auto
next
  assume "materiales_set L (materiales a) = Inr A \<and> materiales_set L (materiales b) = Inr B \<and>
    json_loads L (datos a) = Inr (PDict da) \<and> json_loads L (datos b) = Inr (PDict db)"
  then show "calcular_tiempo_cambio L c a b m =
        Inr ((or_real (time_change_units m) 15
                * (if A \<noteq> B then factor_cambio_material_completo c
                   else factor_cambio_material_parcial c)
              + of_int \<bar>num_colores a - num_colores b\<bar> * costo_cambio_tinta_min c)
             * (if (case fmlookup da ''id_cliente'' of None \<Rightarrow> PNone | Some v \<Rightarrow> v)
                   = (case fmlookup db ''id_cliente'' of None \<Rightarrow> PNone | Some v \<Rightarrow> v)
                then bonificacion_mismo_cliente_pct c else 1))"
    by (simp add: calcular_tiempo_cambio_formula)
next
  show "calcular_costo_cambio m ea eb =
     max 0 ((or_real (time_change_units m) 15
               * (if eo_materiales ea \<noteq> eo_materiales eb then 2 else 1 / 2)
             + of_nat (card (eo_colores eb - eo_colores ea)) * 25
             + of_nat (card (eo_colores ea - eo_colores eb)) * 5
             - of_nat (card (eo_colores ea \<inter> eo_colores eb)) * 15)
            * (if truthy (eo_id_cliente ea) \<and> eo_id_cliente ea = eo_id_cliente eb
               then 8 / 10 else 1))"
    by (rule calcular_costo_cambio_formula)
qed

theorem setup_time_is_change_time_witness:
  "calcular_fechas_probables decoder_muestra config_servicio [orden_muestra, orden_siguiente]
     (mk_datetime 738886 8 0 0 0) maquina_muestra = Inr filas_muestra \<and>
   (0::nat) < 1 \<and> 1 < length [orden_muestra, orden_siguiente] \<and>
   materiales_set decoder_muestra (materiales orden_muestra) = Inr {PNum 1} \<and>
   materiales_set decoder_muestra (materiales orden_siguiente) = Inr {PNum 2} \<and>
   json_loads decoder_muestra (datos orden_muestra) = Inr (PDict fmempty) \<and>
   json_loads decoder_muestra (datos orden_siguiente) = Inr (PDict fmempty) \<and>
   1 < length filas_muestra \<and>
   tiempo_setup_min (filas_muestra ! 1) = round2 (21 / 2) \<and>
   calcular_tiempo_cambio decoder_muestra config_servicio orden_muestra orden_siguiente
     maquina_muestra = Inr ((15 * 1 + of_int \<bar>0 - 0\<bar> * 5) * (7 / 10)) \<and>
   calcular_costo_cambio maquina_muestra enriquecida_muestra enriquecida_siguiente
     = max 0 ((15 * 2 + of_nat (card ({} :: pyval set)) * 25 + of_nat (card ({} :: pyval set)) * 5
               - of_nat (card ({} :: pyval set)) * 15) * 1)"
proof -
  have p: "materiales_set decoder_muestra (materiales orden_muestra) = Inr {PNum 1}"
    "materiales_set decoder_muestra (materiales orden_siguiente) = Inr {PNum 2}"
    "json_loads decoder_muestra (datos orden_muestra) = Inr (PDict fmempty)"
    "json_loads decoder_muestra (datos orden_siguiente) = Inr (PDict fmempty)"
    by (simp_all add: value_defs bind_err_def sample_defs)
  have i: "(0::nat) < 1" "1 < length [orden_muestra, orden_siguiente]" by simp_all
  have v: "or_real (time_change_units maquina_muestra) 15 = 15"
    "factor_cambio_material_completo config_servicio = 1"
    "costo_cambio_tinta_min config_servicio = 5"
    "bonificacion_mismo_cliente_pct config_servicio = 7 / 10"
    "num_colores orden_muestra = 0" "num_colores orden_siguiente = 0"
    "eo_materiales enriquecida_muestra \<noteq> eo_materiales enriquecida_siguiente"
    "eo_colores enriquecida_muestra = {}" "eo_colores enriquecida_siguiente = {}"
    "\<not> truthy (eo_id_cliente enriquecida_muestra)"
    "{PNum 1} \<noteq> {PNum 2}"
    by (simp_all add: value_defs sample_defs config_servicio_def calendar_defs
        enriquecida_muestra_def enriquecida_siguiente_def)
  note t = setup_time_is_change_time[where L = decoder_muestra and c = config_servicio
      and xs = "[orden_muestra, orden_siguiente]" and ?t0.0 = "mk_datetime 738886 8 0 0 0"
      and m = maquina_muestra and rows = filas_muestra and i = 1
      and a = orden_muestra and b = orden_siguiente and A = "{PNum 1}" and B = "{PNum 2}"
      and da = fmempty and db = fmempty
      and ea = enriquecida_muestra and eb = enriquecida_siguiente]
  from t fechas_muestra_eval i
  have 1: "1 < length filas_muestra"
    and "\<exists>s. calcular_tiempo_cambio decoder_muestra config_servicio
            ([orden_muestra, orden_siguiente] ! (1 - 1)) ([orden_muestra, orden_siguiente] ! 1)
            maquina_muestra = Inr s \<and> tiempo_setup_min (filas_muestra ! 1) = round2 s"
    by blast+
  then obtain s where s: "calcular_tiempo_cambio decoder_muestra config_servicio
      orden_muestra orden_siguiente maquina_muestra = Inr s"
    and ss: "tiempo_setup_min (filas_muestra ! 1) = round2 s" by auto
  from t p have "calcular_tiempo_cambio decoder_muestra config_servicio orden_muestra
      orden_siguiente maquina_muestra =
        Inr ((or_real (time_change_units maquina_muestra) 15
                * (if {PNum 1} \<noteq> {PNum (2::real)} then factor_cambio_material_completo config_servicio
                   else factor_cambio_material_parcial config_servicio)
              + of_int \<bar>num_colores orden_muestra - num_colores orden_siguiente\<bar>
                * costo_cambio_tinta_min config_servicio)
             * (if (case fmlookup fmempty ''id_cliente'' of None \<Rightarrow> PNone | Some v \<Rightarrow> v)
                   = (case fmlookup fmempty ''id_cliente'' of None \<Rightarrow> PNone | Some v \<Rightarrow> v)
                then bonificacion_mismo_cliente_pct config_servicio else 1))"
    by blast
  then have 2: "calcular_tiempo_cambio decoder_muestra config_servicio orden_muestra
      orden_siguiente maquina_muestra = Inr ((15 * 1 + of_int \<bar>0 - 0\<bar> * 5) * (7 / 10))"
    using v by simp
  with s have "s = 21 / 2" by simp
  with ss have 3: "tiempo_setup_min (filas_muestra ! 1) = round2 (21 / 2)" by (simp only:)
  from t have "calcular_costo_cambio maquina_muestra enriquecida_muestra enriquecida_siguiente =
     max 0 ((or_real (time_change_units maquina_muestra) 15
               * (if eo_materiales enriquecida_muestra \<noteq> eo_materiales enriquecida_siguiente
                  then 2 else 1 / 2)
             + of_nat (card (eo_colores enriquecida_siguiente - eo_colores enriquecida_muestra)) * 25
             + of_nat (card (eo_colores enriquecida_muestra - eo_colores enriquecida_siguiente)) * 5
             - of_nat (card (eo_colores enriquecida_muestra \<inter> eo_colores enriquecida_siguiente)) * 15)
            * (if truthy (eo_id_cliente enriquecida_muestra)
                  \<and> eo_id_cliente enriquecida_muestra = eo_id_cliente enriquecida_siguiente
               then 8 / 10 else 1))"
    by blast
  then have 4: "calcular_costo_cambio maquina_muestra enriquecida_muestra enriquecida_siguiente
     = max 0 ((15 * 2 + of_nat (card ({} :: pyval set)) * 25 + of_nat (card ({} :: pyval set)) * 5
               - of_nat (card ({} :: pyval set)) * 15) * 1)"
    using v by simp
  from fechas_muestra_eval i p 1 2 3 4 show ?thesis by (intro conjI)
qed
section \<open>Dictionaries built by comprehension\<close>

lemma fold_update_other:
  "k \<notin> f ` set xs \<Longrightarrow> fold (\<lambda>x m. m(f x \<mapsto> x)) xs m k = m k"
  by (induction xs arbitrary: m) auto


lemma fold_update_some:
  "k \<in> f ` set xs \<Longrightarrow> \<exists>x \<in> set xs. fold (\<lambda>x m. m(f x \<mapsto> x)) xs m k = Some x"
proof (induction xs arbitrary: m)
  case Nil
  then show ?case by simp
next
  case (Cons a xs)
  show ?case
  proof (cases "k \<in> f ` set xs")
    case True
    from Cons.IH[OF True, of "m(f a \<mapsto> a)"]
    obtain x where x: "x \<in> set xs"
      and e: "fold (\<lambda>x m. m(f x \<mapsto> x)) xs (m(f a \<mapsto> a)) k = Some x" by blast
    have "fold (\<lambda>x m. m(f x \<mapsto> x)) (a # xs) m k = Some x"
      using e by (simp only: fold_simps comp_apply)
    moreover have "x \<in> set (a # xs)" using x by simp
    ultimately show ?thesis by (rule bexI)
  next
    case False
    with Cons.prems have k: "k = f a" by auto
    have "fold (\<lambda>x m. m(f x \<mapsto> x)) (a # xs) m k
        = fold (\<lambda>x m. m(f x \<mapsto> x)) xs (m(f a \<mapsto> a)) k"
      by (simp only: fold_simps comp_apply)
    also have "\<dots> = (m(f a \<mapsto> a)) k" using False by (rule fold_update_other)
    also have "\<dots> = Some a" by (simp add: k)
    finally have "fold (\<lambda>x m. m(f x \<mapsto> x)) (a # xs) m k = Some a" .
    moreover have "a \<in> set (a # xs)" by simp
    ultimately show ?thesis by (rule bexI)
  qed
qed

section \<open>The lateness term of the fitness\<close>

lemma ag_muestra_init:
  "AlgoritmoGeneticoFlexo_init decoder_muestra [orden_atrasada, orden_siguiente] maquina_muestra
     = Inr ag_muestra"
  by (simp add: AlgoritmoGeneticoFlexo_init_def EnrichedOrder_init_def ag_muestra_def
      enriquecida_atrasada_def enriquecida_siguiente_def orden_atrasada_def value_defs
      bind_err_def sample_defs)

lemma penalizacion_retraso_formula:
  "penalizacion_retraso acc ord =
     (case dias_restantes ord of
        None \<Rightarrow> 0
      | Some d \<Rightarrow>
          if of_int (d * 1440) < acc
          then min ((acc - of_int (d * 1440)) * (if d < 0 then 50 else if d \<le> 3 then 20 else 10)) 500000
          else 0)"
  by (simp add: penalizacion_retraso_def clasificar_urgencia_def DELAY_PENALTY_WEIGHT_def Let_def
      split: option.splits)

lemma clasificar_urgencia_missing:
  "dias_restantes ord = None \<Longrightarrow> clasificar_urgencia ord = ''NORMAL''"
  by (simp add: clasificar_urgencia_def)

text \<open>
  In a sequencer built from a list of orders, every index within the list stands for an
  order: the two lookups of the fitness loop succeed.
\<close>

lemma enrich_all_ids:
  "enrich_all L xs = Inr es \<Longrightarrow> map eo_id es = map id_order xs"
proof (induction xs arbitrary: es)
  case Nil
  then show ?case by simp
next
  case (Cons x xs)
  then show ?case
    by (auto simp: bind_err_def EnrichedOrder_init_def split: sum.splits prod.splits)
qed

lemma orden_de_indice_defined:
  assumes "AlgoritmoGeneticoFlexo_init L ordenes m = Inr ag"
    and "0 \<le> idx" and "idx < int (length ordenes)"
  shows "\<exists>e. orden_de_indice ag idx = Inr e"
proof -
  from assms(1) obtain es where es: "enrich_all L ordenes = Inr es"
    and d: "ordenes_dict ag = fold (\<lambda>e m. m(eo_id e \<mapsto> e)) es Map.empty"
    and t: "idx_to_order_id ag = map id_order ordenes"
    by (auto simp: AlgoritmoGeneticoFlexo_init_def bind_err_def split: sum.splits)
  from assms(2,3) t have i: "py_index (idx_to_order_id ag) idx = Inr (id_order (ordenes ! nat idx))"
    by (simp add: py_index_def)
  from assms(2,3) have "id_order (ordenes ! nat idx) \<in> set (map id_order ordenes)"
    by simp
  with enrich_all_ids[OF es] have "id_order (ordenes ! nat idx) \<in> eo_id ` set es"
    by (metis set_map)
  from fold_update_some[OF this, of Map.empty] d
  obtain e where "ordenes_dict ag (id_order (ordenes ! nat idx)) = Some e" by auto
  with i show ?thesis by (simp add: orden_de_indice_def bind_err_def)
qed


lemma fitness_step_eval:
  assumes "orden_de_indice ag idx = Inr cur"
    and "0 < i \<longrightarrow> orden_de_indice ag (ind ! (i - 1)) = Inr prev"
  shows "fitness_step ag ind i idx (score, acc) =
     Inr (score
            + termino_posicion (card (eo_colores cur)) (of_nat i / of_nat (length ind))
            + (if 0 < i then calcular_costo_cambio (maquina ag) prev cur else 0) * 100
            + termino_sobrecapacidad (maquina ag) (card (eo_colores cur))
            + penalizacion_retraso
                (acc + (if 0 < i then calcular_costo_cambio (maquina ag) prev cur else 0)
                   + estimar_tiempo_produccion (maquina ag) (eo_original cur))
                (eo_original cur),
          acc + (if 0 < i then calcular_costo_cambio (maquina ag) prev cur else 0)
            + estimar_tiempo_produccion (maquina ag) (eo_original cur))"
proof (cases "0 < i")
  case True
  with assms(2) have p: "orden_de_indice ag (ind ! (i - Suc 0)) = Inr prev" by simp
  show ?thesis
    by (simp add: fitness_step_def assms(1) p True bind_err_def Let_def SETUP_COST_WEIGHT_def)
next
  case False
  then show ?thesis
    by (simp add: fitness_step_def assms(1) bind_err_def Let_def)
qed

text \<open>
  Claim C8. Let \<open>es\<close> be the orders the indices of an individual stand for. The fitness
  returns the sum, over the positions walked, of the position term, 100 times the
  transition cost (from the second position on), the over-capacity term and the lateness
  term. The accumulated running time at position \<open>i\<close> is the sum, over the positions up
  to \<open>i\<close>, of the transition costs and the raw print times; when it exceeds the deadline
  \<open>dias_restantes * 1440\<close> the lateness term is \<open>min(overshoot * weight, 500000)\<close>,
  with weight 50 for negative days-remaining, 20 for 0 to 3 days and 10 otherwise, and it
  is 0 when it does not. An order without days-remaining is classified NORMAL and adds no
  lateness penalty at any accumulated time.
\<close>

theorem fitness_lateness:
  assumes len: "length es = length ind"
    and look: "\<forall>i < length ind. orden_de_indice ag (ind ! i) = Inr (es ! i)"
  shows "evaluate_fitness ag ind =
     Inr (\<Sum>i < length ind.
            termino_posicion (card (eo_colores (es ! i))) (of_nat i / of_nat (length ind))
            + (if 0 < i then calcular_costo_cambio (maquina ag) (es ! (i - 1)) (es ! i) else 0) * 100
            + termino_sobrecapacidad (maquina ag) (card (eo_colores (es ! i)))
            + (let tiempo_acumulado =
                     (\<Sum>k \<le> i.
                        (if 0 < k then calcular_costo_cambio (maquina ag) (es ! (k - 1)) (es ! k)
                         else 0)
                        + estimar_tiempo_produccion (maquina ag) (eo_original (es ! k)))
               in case dias_restantes (eo_original (es ! i)) of
                    None \<Rightarrow> 0
                  | Some d \<Rightarrow>
                      if of_int (d * 1440) < tiempo_acumulado
                      then min ((tiempo_acumulado - of_int (d * 1440))
                                * (if d < 0 then 50 else if d \<le> 3 then 20 else 10)) 500000
                      else 0)) \<and>
     (\<forall>i < length ind. dias_restantes (eo_original (es ! i)) = None \<longrightarrow>
        clasificar_urgencia (eo_original (es ! i)) = ''NORMAL'')"
proof -
  define n where "n = length ind"
  define paso :: "nat \<Rightarrow> real" where
    "paso k = (if 0 < k then calcular_costo_cambio (maquina ag) (es ! (k - 1)) (es ! k) else 0)
              + estimar_tiempo_produccion (maquina ag) (eo_original (es ! k))" for k
  define A :: "nat \<Rightarrow> real" where "A i = (\<Sum>k < i. paso k)" for i
  define contrib :: "nat \<Rightarrow> real" where
    "contrib i =
       termino_posicion (card (eo_colores (es ! i))) (of_nat i / of_nat n)
       + (if 0 < i then calcular_costo_cambio (maquina ag) (es ! (i - 1)) (es ! i) else 0) * 100
       + termino_sobrecapacidad (maquina ag) (card (eo_colores (es ! i)))
       + penalizacion_retraso (A (Suc i)) (eo_original (es ! i))" for i
  have step: "fitness_step ag ind i (ind ! i) (score, A i) = Inr (score + contrib i, A (Suc i))"
    if "i < n" for i score
  proof -
    from that look have cur: "orden_de_indice ag (ind ! i) = Inr (es ! i)"
      by (simp add: n_def)
    from that look have prev: "0 < i \<longrightarrow> orden_de_indice ag (ind ! (i - 1)) = Inr (es ! (i - 1))"
      by (simp add: n_def)
    have "A i + (if 0 < i then calcular_costo_cambio (maquina ag) (es ! (i - 1)) (es ! i) else 0)
            + estimar_tiempo_produccion (maquina ag) (eo_original (es ! i)) = A (Suc i)"
      by (simp add: A_def paso_def)
    with fitness_step_eval[OF cur prev, of score "A i"] show ?thesis
      by (simp add: contrib_def n_def)
  qed
  have loop: "fitness_loop ag ind i (score, A i) (drop i ind)
      = Inr (score + sum contrib {i..<n}, A n)" if "n - i = k" "i \<le> n" for k i score
    using that
  proof (induction k arbitrary: i score)
    case 0
    then have "i = n" by simp
    then show ?case by (simp add: n_def)
  next
    case (Suc k)
    then have i: "i < n" by simp
    then have d: "drop i ind = ind ! i # drop (Suc i) ind"
      by (simp add: n_def Cons_nth_drop_Suc)
    from Suc.prems have "n - Suc i = k" "Suc i \<le> n" by simp_all
    from Suc.IH[OF this]
    have ih: "fitness_loop ag ind (Suc i) (score + contrib i, A (Suc i)) (drop (Suc i) ind)
        = Inr (score + contrib i + sum contrib {Suc i..<n}, A n)" .
    have "sum contrib {i..<n} = contrib i + sum contrib {Suc i..<n}"
      using i by (simp add: sum.atLeast_Suc_lessThan)
    with ih show ?case
      unfolding d by (simp add: step[OF i] bind_err_def add.assoc)
  qed
  have "fitness_loop ag ind 0 (0, 0) ind = Inr (sum contrib {0..<n}, A n)"
    using loop[of 0 n 0] by (simp add: A_def)
  then have ev: "evaluate_fitness ag ind = Inr (\<Sum>i < n. contrib i)"
    by (simp add: evaluate_fitness_def bind_err_def atLeast0LessThan)
  have A_Suc: "A (Suc i) = (\<Sum>k \<le> i. paso k)" for i
    by (simp add: A_def lessThan_Suc_atMost)
  have "(\<Sum>i < n. contrib i) = (\<Sum>i < length ind.
            termino_posicion (card (eo_colores (es ! i))) (of_nat i / of_nat (length ind))
            + (if 0 < i then calcular_costo_cambio (maquina ag) (es ! (i - 1)) (es ! i) else 0) * 100
            + termino_sobrecapacidad (maquina ag) (card (eo_colores (es ! i)))
            + (let tiempo_acumulado =
                     (\<Sum>k \<le> i.
                        (if 0 < k then calcular_costo_cambio (maquina ag) (es ! (k - 1)) (es ! k)
                         else 0)
                        + estimar_tiempo_produccion (maquina ag) (eo_original (es ! k)))
               in case dias_restantes (eo_original (es ! i)) of
                    None \<Rightarrow> 0
                  | Some d \<Rightarrow>
                      if of_int (d * 1440) < tiempo_acumulado
                      then min ((tiempo_acumulado - of_int (d * 1440))
                                * (if d < 0 then 50 else if d \<le> 3 then 20 else 10)) 500000
                      else 0))"
    unfolding contrib_def A_Suc penalizacion_retraso_formula paso_def n_def Let_def ..
  with ev show ?thesis by (simp add: clasificar_urgencia_missing)
qed


theorem fitness_lateness_witness:
  "length [enriquecida_atrasada, enriquecida_siguiente] = length [0 :: int, 1] \<and>
   orden_de_indice ag_muestra 0 = Inr enriquecida_atrasada \<and>
   orden_de_indice ag_muestra 1 = Inr enriquecida_siguiente \<and>
   dias_restantes (eo_original enriquecida_atrasada) = Some (- 1) \<and>
   dias_restantes (eo_original enriquecida_siguiente) = None \<and>
   clasificar_urgencia (eo_original enriquecida_siguiente) = ''NORMAL'' \<and>
   evaluate_fitness ag_muestra [0, 1] = Inr 237500 \<and>
   (237500 :: real) =
     (75000 + 0 * 100 + 0 + min ((1000 - of_int (- 1 * 1440)) * 50) 500000)
     + (37500 + 30 * 100 + 0 + 0)"
proof -
  have o: "orden_de_indice ag_muestra 0 = Inr enriquecida_atrasada"
    "orden_de_indice ag_muestra 1 = Inr enriquecida_siguiente"
    by (simp_all add: orden_de_indice_def ag_muestra_def value_defs bind_err_def)
  have d: "dias_restantes (eo_original enriquecida_atrasada) = Some (- 1)"
    "dias_restantes (eo_original enriquecida_siguiente) = None"
    by (simp_all add: enriquecida_atrasada_def enriquecida_siguiente_def orden_atrasada_def
        sample_defs)
  have len: "length [enriquecida_atrasada, enriquecida_siguiente] = length [0 :: int, 1]"
    by simp
  have look: "\<forall>i < length [0 :: int, 1].
      orden_de_indice ag_muestra ([0, 1] ! i) = Inr ([enriquecida_atrasada, enriquecida_siguiente] ! i)"
    using o by (simp add: less_Suc_eq)
  have m: "maquina ag_muestra = maquina_muestra"
    by (simp add: ag_muestra_def)
  have v: "termino_posicion (card (eo_colores enriquecida_atrasada)) 0 = 75000"
    "termino_posicion (card (eo_colores enriquecida_siguiente)) (1 / 2) = 37500"
    "termino_sobrecapacidad maquina_muestra (card (eo_colores enriquecida_atrasada)) = 0"
    "termino_sobrecapacidad maquina_muestra (card (eo_colores enriquecida_siguiente)) = 0"
    "calcular_costo_cambio maquina_muestra enriquecida_atrasada enriquecida_siguiente = 30"
    "estimar_tiempo_produccion maquina_muestra (eo_original enriquecida_atrasada) = 1000"
    "estimar_tiempo_produccion maquina_muestra (eo_original enriquecida_siguiente) = 95"
    by (simp_all add: termino_posicion_def termino_sobrecapacidad_def calcular_costo_cambio_def
        estimar_tiempo_produccion_def enriquecida_atrasada_def enriquecida_siguiente_def
        orden_atrasada_def optimizer_defs value_defs sample_defs Let_def)
  note t = fitness_lateness[OF len look]
  from t have e: "evaluate_fitness ag_muestra [0, 1] = Inr 237500"
    using d by (simp add: m v numeral_2_eq_2 Let_def)
  from t[THEN conjunct2, rule_format, of 1] d(2)
  have n: "clasificar_urgencia (eo_original enriquecida_siguiente) = ''NORMAL''"
    by simp
  from len o d n e show ?thesis by simp
qed

section \<open>Forced-date orders in the final sequence\<close>












end
